theory Spec2Isabelle
  imports Complex_Main "HOL-Library.Word" "HOL-Library.Signed_Division"
begin

section \<open>REST client metrics adapters (component-base/metrics/prometheus/restclient)\<close>

text \<open>
  The package declares five metric instruments as package-level variables, registers them
  in \<open>init\<close>, and forwards the callbacks of the HTTP client library to them through four
  adapters. The embedding follows \<open>metrics.go\<close>: the package-level variables are the
  addresses of a store, the adapters are records holding such addresses (the Go structs
  hold pointers), and every method that mutates an instrument takes the store and returns
  the updated one. A panic is the \<open>Inl\<close> branch of a sum.
\<close>

subsection \<open>Library values: float64, time.Duration, url.URL, strings\<close>

text \<open>
  A \<open>float64\<close> is either a finite number, one of the two infinities, or not a number.
  Finite values are modelled by the real number they denote: rounding of float64
  arithmetic is not modelled.
\<close>

datatype float64 = Finite real | PosInf | NegInf | NaN

text \<open>Go's \<open>math.Inf(sign)\<close>: positive infinity if \<open>sign >= 0\<close>, negative infinity otherwise.\<close>

definition math_Inf :: "int \<Rightarrow> float64" where
  "math_Inf sign = (if sign \<ge> 0 then PosInf else NegInf)"

text \<open>Addition of float64 values, with the IEEE 754 rules for infinities and NaN.\<close>

fun fadd :: "float64 \<Rightarrow> float64 \<Rightarrow> float64" where
  "fadd (Finite a) (Finite b) = Finite (a + b)"
| "fadd NaN _ = NaN"
| "fadd _ NaN = NaN"
| "fadd PosInf NegInf = NaN"
| "fadd NegInf PosInf = NaN"
| "fadd PosInf _ = PosInf"
| "fadd _ PosInf = PosInf"
| "fadd NegInf _ = NegInf"
| "fadd _ NegInf = NegInf"

text \<open>The comparison \<open>a >= b\<close> of float64 values; every comparison with NaN is false.\<close>

fun fge :: "float64 \<Rightarrow> float64 \<Rightarrow> bool" where
  "fge NaN _ = False"
| "fge _ NaN = False"
| "fge (Finite a) (Finite b) = (a \<ge> b)"
| "fge PosInf _ = True"
| "fge _ NegInf = True"
| "fge _ _ = False"

text \<open>
  A \<open>time.Duration\<close> is an int64 count of nanoseconds. Go's \<open>Duration.Seconds\<close> is
  \<^verbatim>\<open>sec := d / Second; nsec := d % Second; return float64(sec) + float64(nsec)/1e9\<close>
  where \<open>/\<close> and \<open>%\<close> on integers truncate towards zero (\<open>sdiv\<close> and \<open>smod\<close>).
\<close>

type_synonym Duration = "64 word"

definition Second :: int where
  "Second = 1000000000"

definition Seconds :: "Duration \<Rightarrow> float64" where
  "Seconds d =
     (let sec = sint d sdiv Second;
          nsec = sint d smod Second
      in Finite (real_of_int sec + real_of_int nsec / 1000000000))"

text \<open>
  Of a \<open>url.URL\<close> the package uses nothing but the result of its \<open>String\<close> method, so a
  URL is represented by that string.
\<close>

datatype URL = URL (URL_String: string)

text \<open>
  A Go string is a sequence of bytes, any bytes. Go's \<open>utf8.ValidString\<close> tells whether
  it is well-formed UTF-8: \<open>leading\<close> gives, for a first byte, the number of bytes that
  must follow and the range of the first of them; the others are continuation bytes.
\<close>

definition leading :: "nat \<Rightarrow> (nat \<times> nat \<times> nat) option" where
  "leading a =
     (if a < 0x80 then Some (0, 0, 0)
      else if 0xC2 \<le> a \<and> a \<le> 0xDF then Some (1, 0x80, 0xBF)
      else if a = 0xE0 then Some (2, 0xA0, 0xBF)
      else if 0xE1 \<le> a \<and> a \<le> 0xEC then Some (2, 0x80, 0xBF)
      else if a = 0xED then Some (2, 0x80, 0x9F)
      else if 0xEE \<le> a \<and> a \<le> 0xEF then Some (2, 0x80, 0xBF)
      else if a = 0xF0 then Some (3, 0x90, 0xBF)
      else if 0xF1 \<le> a \<and> a \<le> 0xF3 then Some (3, 0x80, 0xBF)
      else if a = 0xF4 then Some (3, 0x80, 0x8F)
      else None)"

definition continuation :: "nat \<Rightarrow> bool" where
  "continuation c = (0x80 \<le> c \<and> c \<le> 0xBF)"

function validBytes :: "nat list \<Rightarrow> bool" where
  "validBytes [] = True"
| "validBytes (a # bs) =
     (case leading a of
        None \<Rightarrow> False
      | Some (n, lo, hi) \<Rightarrow>
          if n = 0 then validBytes bs
          else n \<le> length bs \<and> lo \<le> hd bs \<and> hd bs \<le> hi
               \<and> list_all continuation (take (n - 1) (tl bs))
               \<and> validBytes (drop n bs))"
  by pat_completeness auto
termination
  by (relation "measure length") auto

definition ValidString :: "string \<Rightarrow> bool" where
  "ValidString s = validBytes (map of_char s)"

subsection \<open>Instruments of k8s.io/component-base/metrics\<close>

text \<open>
  The instruments are code of the repository that is not part of the source file. Their
  model follows the spec and, beyond its words, three behaviours of the library on which
  the behaviour of the package depends:
  \<^item> an instrument is created only when it is registered; until then its methods do
    nothing (a gauge, a vector) and it holds no data;
  \<^item> the registry hides a deprecated instrument, depending on the version of the binary:
    a hidden instrument is neither created nor registered;
  \<^item> \<open>WithLabelValues\<close> of a created vector panics on a label value that is not valid
    UTF-8.
  \<open>WithLabelValues\<close> also panics when the number of values differs from the number of
  label names; the adapters pass two values to vectors of two label names and three to the
  vector of three, and nothing changes the label names, so this check is left out.
\<close>

datatype error = AlreadyRegistered string | InvalidLabelValue string

text \<open>The options the package sets on its instruments (\<open>CounterOpts\<close>, \<open>GaugeOpts\<close>).\<close>

record KubeOpts =
  Name :: string
  Help :: string
  DeprecatedVersion :: string

record HistogramOpts = KubeOpts +
  Buckets :: "float64 list"

text \<open>
  Modelled from the spec: \<open>k8smetrics.ExponentialBuckets\<close> is not part of the source file.
  The spec gives the buckets it yields as "exponential: 0.001s x 2^0..9", that is
  \<open>count\<close> upper bounds, the first one \<open>start\<close>, each \<open>factor\<close> times the one before.
\<close>

definition ExponentialBuckets :: "real \<Rightarrow> real \<Rightarrow> nat \<Rightarrow> float64 list" where
  "ExponentialBuckets start factor count = map (\<lambda>i. Finite (start * factor ^ i)) [0..<count]"

text \<open>
  Modelled from the spec: the type \<open>k8smetrics.Histogram\<close> and its method \<open>Observe\<close> are
  not part of the source file. The spec describes a histogram as a "metric type recording
  a distribution of observed values into predefined buckets, yielding count/sum/quantile
  estimates", with buckets "fixed at creation". An observation counts in the first bucket
  whose upper bound is not below the value (in none if there is no such bucket), is added
  to the sum, and increases the sample count by one. The only histogram of the package
  that is not a series of a vector is never deprecated, is empty when \<open>init\<close> registers it
  and is not observed before; its creation at registration is therefore not modelled.
\<close>

record Histogram =
  hOpts :: HistogramOpts
  counts :: "nat list"
  sampleSum :: float64
  sampleCount :: nat

definition NewHistogram :: "HistogramOpts \<Rightarrow> Histogram" where
  "NewHistogram opts =
     \<lparr>hOpts = opts, counts = replicate (length (Buckets opts)) 0,
      sampleSum = Finite 0, sampleCount = 0\<rparr>"

fun bucketIndex :: "float64 list \<Rightarrow> float64 \<Rightarrow> nat" where
  "bucketIndex [] v = 0"
| "bucketIndex (b # bs) v = (if fge b v then 0 else Suc (bucketIndex bs v))"

definition Histogram_Observe :: "Histogram \<Rightarrow> float64 \<Rightarrow> Histogram" where
  "Histogram_Observe h v =
     (let i = bucketIndex (Buckets (hOpts h)) v
      in h\<lparr>counts := (if i < length (counts h) then (counts h)[i := counts h ! i + 1]
                       else counts h),
            sampleSum := fadd (sampleSum h) v,
            sampleCount := sampleCount h + 1\<rparr>)"

text \<open>
  Modelled from the spec: the type \<open>k8smetrics.HistogramVec\<close> and its method
  \<open>WithLabelValues\<close> are not part of the source file. The spec describes a histogram
  "keyed by a tuple of label values", where "unknown label combinations are accepted by
  auto-creating new series rather than erroring". \<open>HistogramVec_WithLabelValues\<close> yields
  the series of a label tuple, a new empty histogram with the buckets of the vector if
  there is none yet; \<open>HistogramVec_Observe\<close> is \<open>WithLabelValues(lvs...).Observe(v)\<close>: on
  a vector that has not been created it does nothing, on a created one it panics on the
  first label value that is not valid UTF-8 and records the observation otherwise.
\<close>

record HistogramVec =
  hvOpts :: HistogramOpts
  hvLabels :: "string list"
  hvCreated :: bool
  hvSeries :: "string list \<rightharpoonup> Histogram"

definition NewHistogramVec :: "HistogramOpts \<Rightarrow> string list \<Rightarrow> HistogramVec" where
  "NewHistogramVec opts labels =
     \<lparr>hvOpts = opts, hvLabels = labels, hvCreated = False, hvSeries = Map.empty\<rparr>"

definition HistogramVec_WithLabelValues :: "HistogramVec \<Rightarrow> string list \<Rightarrow> Histogram" where
  "HistogramVec_WithLabelValues hv lvs =
     (case hvSeries hv lvs of Some h \<Rightarrow> h | None \<Rightarrow> NewHistogram (hvOpts hv))"

definition HistogramVec_Observe ::
  "HistogramVec \<Rightarrow> string list \<Rightarrow> float64 \<Rightarrow> error + HistogramVec" where
  "HistogramVec_Observe hv lvs v =
     (if \<not> hvCreated hv then Inr hv
      else case find (\<lambda>l. \<not> ValidString l) lvs of
        Some l \<Rightarrow> Inl (InvalidLabelValue l)
      | None \<Rightarrow>
          Inr (hv\<lparr>hvSeries := (hvSeries hv)
                 (lvs \<mapsto> Histogram_Observe (HistogramVec_WithLabelValues hv lvs) v)\<rparr>))"

text \<open>
  Modelled from the spec: the type \<open>k8smetrics.CounterVec\<close> and its methods are not part
  of the source file. The spec describes a "monotonically increasing count keyed by
  (status code, method, host)"; a series that does not exist yet is created at zero.
  \<open>CounterVec_Inc\<close> is \<open>WithLabelValues(lvs...).Inc()\<close>, with the same two guards as for
  a histogram vector.
\<close>

record CounterVec =
  cvOpts :: KubeOpts
  cvLabels :: "string list"
  cvCreated :: bool
  cvSeries :: "string list \<rightharpoonup> nat"

definition NewCounterVec :: "KubeOpts \<Rightarrow> string list \<Rightarrow> CounterVec" where
  "NewCounterVec opts labels =
     \<lparr>cvOpts = opts, cvLabels = labels, cvCreated = False, cvSeries = Map.empty\<rparr>"

definition CounterVec_WithLabelValues :: "CounterVec \<Rightarrow> string list \<Rightarrow> nat" where
  "CounterVec_WithLabelValues cv lvs = (case cvSeries cv lvs of Some n \<Rightarrow> n | None \<Rightarrow> 0)"

definition CounterVec_Inc :: "CounterVec \<Rightarrow> string list \<Rightarrow> error + CounterVec" where
  "CounterVec_Inc cv lvs =
     (if \<not> cvCreated cv then Inr cv
      else case find (\<lambda>l. \<not> ValidString l) lvs of
        Some l \<Rightarrow> Inl (InvalidLabelValue l)
      | None \<Rightarrow>
          Inr (cv\<lparr>cvSeries := (cvSeries cv)(lvs \<mapsto> CounterVec_WithLabelValues cv lvs + 1)\<rparr>))"

text \<open>
  Modelled from the spec: the type \<open>k8smetrics.Gauge\<close> and its method \<open>Set\<close> are not part
  of the source file. The spec describes a "single scalar" that is a "level gauge: each
  call overwrites the prior value". A gauge that has not been created ignores \<open>Set\<close>; a
  created gauge starts at zero.
\<close>

record Gauge =
  gOpts :: KubeOpts
  gCreated :: bool
  gValue :: float64

definition NewGauge :: "KubeOpts \<Rightarrow> Gauge" where
  "NewGauge opts = \<lparr>gOpts = opts, gCreated = False, gValue = Finite 0\<rparr>"

definition Gauge_Set :: "Gauge \<Rightarrow> float64 \<Rightarrow> Gauge" where
  "Gauge_Set g v = (if gCreated g then g\<lparr>gValue := v\<rparr> else g)"

text \<open>
  Creation happens once, at the first registration: a vector starts without series, a
  gauge at zero.
\<close>

definition HistogramVec_Create :: "HistogramVec \<Rightarrow> HistogramVec" where
  "HistogramVec_Create hv =
     (if hvCreated hv then hv else hv\<lparr>hvCreated := True, hvSeries := Map.empty\<rparr>)"

definition CounterVec_Create :: "CounterVec \<Rightarrow> CounterVec" where
  "CounterVec_Create cv =
     (if cvCreated cv then cv else cv\<lparr>cvCreated := True, cvSeries := Map.empty\<rparr>)"

definition Gauge_Create :: "Gauge \<Rightarrow> Gauge" where
  "Gauge_Create g = (if gCreated g then g else g\<lparr>gCreated := True, gValue := Finite 0\<rparr>)"

subsection \<open>The store: package-level variables, registry and hooks\<close>

text \<open>
  The five package-level variables are pointers to instruments. Each pointer type has
  the variables of that type as its values.
\<close>

datatype HistogramVecPtr = requestLatency | deprecatedRequestLatency
datatype CounterVecPtr = requestResult
datatype GaugePtr = execPluginCertTTL
datatype HistogramPtr = execPluginCertRotation

text \<open>The adapter structs of the source, each holding pointers to its instruments.\<close>

record latencyAdapter =
  m :: HistogramVecPtr
  dm :: HistogramVecPtr

record resultAdapter =
  m :: CounterVecPtr

record ttlAdapter =
  m :: GaugePtr

record rotationAdapter =
  m :: HistogramPtr

text \<open>The fields of \<open>metrics.RegisterOpts\<close> (k8s.io/client-go/tools/metrics) that \<open>init\<close> sets.\<close>

record RegisterOpts =
  ClientCertTTL :: ttlAdapter
  ClientCertRotationAge :: rotationAdapter
  RequestLatency :: latencyAdapter
  RequestResult :: resultAdapter

text \<open>What the process-wide registry keeps of a registered instrument.\<close>

datatype MetricType = CounterType | GaugeType | HistogramType

record Desc =
  fqName :: string
  variableLabels :: "string list"
  metricType :: MetricType
  deprecatedVersion :: string

text \<open>
  The state of the process as far as the package is concerned. Whether the registry
  hides an instrument deprecated in a given version is decided by the version of the
  binary and its options, which lie outside the source file: \<open>hidesDeprecated\<close> is that
  decision, a parameter of the state that nothing in the package changes.
\<close>

record state =
  histogramVecs :: "HistogramVecPtr \<Rightarrow> HistogramVec"
  counterVecs :: "CounterVecPtr \<Rightarrow> CounterVec"
  gauges :: "GaugePtr \<Rightarrow> Gauge"
  histograms :: "HistogramPtr \<Rightarrow> Histogram"
  registry :: "Desc list"
  hidesDeprecated :: "string \<Rightarrow> bool"
  hooks :: "RegisterOpts option"

text \<open>
  A method call through a pointer updates the object the pointer refers to; a method that
  panics leaves no state.
\<close>

definition withHistogramVec ::
  "HistogramVecPtr \<Rightarrow> (HistogramVec \<Rightarrow> error + HistogramVec) \<Rightarrow> state \<Rightarrow> error + state" where
  "withHistogramVec p f s =
     (case f (histogramVecs s p) of
        Inl e \<Rightarrow> Inl e
      | Inr hv \<Rightarrow> Inr (s\<lparr>histogramVecs := (histogramVecs s)(p := hv)\<rparr>))"

definition withCounterVec ::
  "CounterVecPtr \<Rightarrow> (CounterVec \<Rightarrow> error + CounterVec) \<Rightarrow> state \<Rightarrow> error + state" where
  "withCounterVec p f s =
     (case f (counterVecs s p) of
        Inl e \<Rightarrow> Inl e
      | Inr cv \<Rightarrow> Inr (s\<lparr>counterVecs := (counterVecs s)(p := cv)\<rparr>))"

definition withGauge :: "GaugePtr \<Rightarrow> (Gauge \<Rightarrow> Gauge) \<Rightarrow> state \<Rightarrow> state" where
  "withGauge p f s = s\<lparr>gauges := (gauges s)(p := f (gauges s p))\<rparr>"

definition withHistogram :: "HistogramPtr \<Rightarrow> (Histogram \<Rightarrow> Histogram) \<Rightarrow> state \<Rightarrow> state" where
  "withHistogram p f s = s\<lparr>histograms := (histograms s)(p := f (histograms s p))\<rparr>"

text \<open>
  Modelled from the spec: \<open>legacyregistry.MustRegister\<close> is not part of the source file.
  The spec gives its contract as "\<open>register(instrument) -> success | fatal duplicate-name
  error\<close>": registering a name that the registry already holds panics, which aborts the
  process; otherwise the instrument is added to the registry. Before that, the registry
  decides whether the instrument is hidden, in which case it is neither created nor
  registered and the call returns, and creates the instrument otherwise.
\<close>

datatype Registerable =
    HistogramVecC HistogramVecPtr
  | CounterVecC CounterVecPtr
  | GaugeC GaugePtr
  | HistogramC HistogramPtr

fun Describe :: "state \<Rightarrow> Registerable \<Rightarrow> Desc" where
  "Describe s (HistogramVecC p) =
     \<lparr>fqName = Name (hvOpts (histogramVecs s p)),
      variableLabels = hvLabels (histogramVecs s p),
      metricType = HistogramType,
      deprecatedVersion = DeprecatedVersion (hvOpts (histogramVecs s p))\<rparr>"
| "Describe s (CounterVecC p) =
     \<lparr>fqName = Name (cvOpts (counterVecs s p)),
      variableLabels = cvLabels (counterVecs s p),
      metricType = CounterType,
      deprecatedVersion = DeprecatedVersion (cvOpts (counterVecs s p))\<rparr>"
| "Describe s (GaugeC p) =
     \<lparr>fqName = Name (gOpts (gauges s p)),
      variableLabels = [],
      metricType = GaugeType,
      deprecatedVersion = DeprecatedVersion (gOpts (gauges s p))\<rparr>"
| "Describe s (HistogramC p) =
     \<lparr>fqName = Name (hOpts (histograms s p)),
      variableLabels = [],
      metricType = HistogramType,
      deprecatedVersion = DeprecatedVersion (hOpts (histograms s p))\<rparr>"

definition isHidden :: "state \<Rightarrow> Registerable \<Rightarrow> bool" where
  "isHidden s c =
     (deprecatedVersion (Describe s c) \<noteq> []
      \<and> hidesDeprecated s (deprecatedVersion (Describe s c)))"

fun Create :: "Registerable \<Rightarrow> state \<Rightarrow> state" where
  "Create (HistogramVecC p) s =
     s\<lparr>histogramVecs := (histogramVecs s)(p := HistogramVec_Create (histogramVecs s p))\<rparr>"
| "Create (CounterVecC p) s =
     s\<lparr>counterVecs := (counterVecs s)(p := CounterVec_Create (counterVecs s p))\<rparr>"
| "Create (GaugeC p) s =
     s\<lparr>gauges := (gauges s)(p := Gauge_Create (gauges s p))\<rparr>"
| "Create (HistogramC p) s = s"

definition MustRegister :: "Registerable \<Rightarrow> state \<Rightarrow> error + state" where
  "MustRegister c s =
     (if isHidden s c then Inr s
      else
        let s1 = Create c s;
            d = Describe s1 c
        in if fqName d \<in> set (map fqName (registry s1))
           then Inl (AlreadyRegistered (fqName d))
           else Inr (s1\<lparr>registry := registry s1 @ [d]\<rparr>))"

text \<open>
  Modelled from the spec: \<open>metrics.Register\<close> of k8s.io/client-go/tools/metrics is not
  part of the source file. The spec says the adapters are "supplied as the active
  implementation via a single registration call at startup, replacing any default/no-op
  implementation"; \<open>hooks = None\<close> is the default no-op implementation.
\<close>

definition metrics_Register :: "RegisterOpts \<Rightarrow> state \<Rightarrow> state" where
  "metrics_Register opts s = s\<lparr>hooks := Some opts\<rparr>"

subsection \<open>The package-level variables\<close>

text \<open>
  The \<open>var\<close> block of the source: each variable points to a newly constructed instrument.
  The registry belongs to the process, so its content before the package is initialised
  and its decision on deprecated instruments are parameters.
\<close>

definition vars :: "Desc list \<Rightarrow> (string \<Rightarrow> bool) \<Rightarrow> state" where
  "vars reg hide =
     \<lparr>histogramVecs = (\<lambda>p. case p of
          requestLatency \<Rightarrow>
            NewHistogramVec
              \<lparr>Name = ''rest_client_request_duration_seconds'',
               Help = ''Request latency in seconds. Broken down by verb and URL.'',
               DeprecatedVersion = [],
               Buckets = ExponentialBuckets 0.001 2 10\<rparr>
              [''verb'', ''url'']
        | deprecatedRequestLatency \<Rightarrow>
            NewHistogramVec
              \<lparr>Name = ''rest_client_request_latency_seconds'',
               Help = ''Request latency in seconds. Broken down by verb and URL.'',
               DeprecatedVersion = ''1.14.0'',
               Buckets = ExponentialBuckets 0.001 2 10\<rparr>
              [''verb'', ''url'']),
      counterVecs = (\<lambda>p. case p of
          requestResult \<Rightarrow>
            NewCounterVec
              \<lparr>Name = ''rest_client_requests_total'',
               Help = ''Number of HTTP requests, partitioned by status code, method, and host.'',
               DeprecatedVersion = []\<rparr>
              [''code'', ''method'', ''host'']),
      gauges = (\<lambda>p. case p of
          execPluginCertTTL \<Rightarrow>
            NewGauge
              \<lparr>Name = ''rest_client_exec_plugin_ttl_seconds'',
               Help = ''Gauge of the shortest TTL (time-to-live) of the client '' @
                      ''certificate(s) managed by the auth exec plugin. The value '' @
                      ''is in seconds until certificate expiry. If auth exec '' @
                      ''plugins are unused or manage no TLS certificates, the '' @
                      ''value will be +INF.'',
               DeprecatedVersion = []\<rparr>),
      histograms = (\<lambda>p. case p of
          execPluginCertRotation \<Rightarrow>
            NewHistogram
              \<lparr>Name = ''rest_client_exec_plugin_certificate_rotation_age'',
               Help = ''Histogram of the number of seconds the last auth exec '' @
                      ''plugin client certificate lived before being rotated. '' @
                      ''If auth exec plugin client certificates are unused, '' @
                      ''histogram will contain no data.'',
               DeprecatedVersion = [],
               Buckets = map Finite
                 [600, 1800, 3600, 14400, 86400, 604800, 2592000, 7776000,
                  15552000, 31104000, 124416000]\<rparr>),
      registry = reg,
      hidesDeprecated = hide,
      hooks = None\<rparr>"

text \<open>
  Two binaries: one built without a version, whose registry hides nothing, and a release
  whose registry hides what was deprecated in 1.14.0.
\<close>

definition hidesNothing :: "string \<Rightarrow> bool" where
  "hidesNothing v = False"

definition hides_1_14 :: "string \<Rightarrow> bool" where
  "hides_1_14 v = (v = ''1.14.0'')"

subsection \<open>init\<close>

definition init :: "state \<Rightarrow> error + state" where
  "init s0 =
     (let s1 = withGauge execPluginCertTTL (\<lambda>g. Gauge_Set g (math_Inf 1)) s0 in
      case MustRegister (HistogramVecC requestLatency) s1 of Inl e \<Rightarrow> Inl e | Inr s2 \<Rightarrow>
      case MustRegister (HistogramVecC deprecatedRequestLatency) s2 of Inl e \<Rightarrow> Inl e | Inr s3 \<Rightarrow>
      case MustRegister (CounterVecC requestResult) s3 of Inl e \<Rightarrow> Inl e | Inr s4 \<Rightarrow>
      case MustRegister (GaugeC execPluginCertTTL) s4 of Inl e \<Rightarrow> Inl e | Inr s5 \<Rightarrow>
      case MustRegister (HistogramC execPluginCertRotation) s5 of Inl e \<Rightarrow> Inl e | Inr s6 \<Rightarrow>
      Inr (metrics_Register
             \<lparr>ClientCertTTL = \<lparr>ttlAdapter.m = execPluginCertTTL\<rparr>,
              ClientCertRotationAge = \<lparr>rotationAdapter.m = execPluginCertRotation\<rparr>,
              RequestLatency = \<lparr>latencyAdapter.m = requestLatency, dm = deprecatedRequestLatency\<rparr>,
              RequestResult = \<lparr>resultAdapter.m = requestResult\<rparr>\<rparr>
             s6))"

subsection \<open>The adapters\<close>

definition latencyAdapter_Observe ::
  "latencyAdapter \<Rightarrow> string \<Rightarrow> URL \<Rightarrow> Duration \<Rightarrow> state \<Rightarrow> error + state" where
  "latencyAdapter_Observe l verb u latency s =
     (case withHistogramVec (latencyAdapter.m l)
             (\<lambda>hv. HistogramVec_Observe hv [verb, URL_String u] (Seconds latency)) s of
        Inl e \<Rightarrow> Inl e
      | Inr s1 \<Rightarrow>
          withHistogramVec (dm l)
            (\<lambda>hv. HistogramVec_Observe hv [verb, URL_String u] (Seconds latency)) s1)"

definition resultAdapter_Increment ::
  "resultAdapter \<Rightarrow> string \<Rightarrow> string \<Rightarrow> string \<Rightarrow> state \<Rightarrow> error + state" where
  "resultAdapter_Increment r code method host s =
     withCounterVec (resultAdapter.m r) (\<lambda>cv. CounterVec_Inc cv [code, method, host]) s"

text \<open>The argument of \<open>Set\<close> is a pointer to a duration: \<open>None\<close> is the nil pointer.\<close>

definition ttlAdapter_Set :: "ttlAdapter \<Rightarrow> Duration option \<Rightarrow> state \<Rightarrow> state" where
  "ttlAdapter_Set e ttl s =
     (case ttl of
        None \<Rightarrow> withGauge (ttlAdapter.m e) (\<lambda>g. Gauge_Set g (math_Inf 1)) s
      | Some d \<Rightarrow> withGauge (ttlAdapter.m e) (\<lambda>g. Gauge_Set g (Seconds d)) s)"

definition rotationAdapter_Observe :: "rotationAdapter \<Rightarrow> Duration \<Rightarrow> state \<Rightarrow> state" where
  "rotationAdapter_Observe r d s =
     withHistogram (rotationAdapter.m r) (\<lambda>h. Histogram_Observe h (Seconds d)) s"

subsection \<open>Calls of the client library\<close>

text \<open>
  Modelled from the spec: the hook interface of k8s.io/client-go/tools/metrics is not part
  of the source file. The spec lists its "four capabilities - observe-latency(verb, url,
  duration), increment-result(code, method, host), set-cert-ttl(optional duration),
  observe-cert-rotation(duration)". The client library calls the registered adapters;
  while none is registered, a call does nothing. A sequence of calls ends at the first
  panic.
\<close>

datatype Call =
    ObserveLatency string URL Duration
  | IncrementResult string string string
  | SetCertTTL "Duration option"
  | ObserveCertRotation Duration

fun isSetCertTTL :: "Call \<Rightarrow> bool" where
  "isSetCertTTL (SetCertTTL ttl) = True"
| "isSetCertTTL c = False"

fun invoke :: "RegisterOpts \<Rightarrow> Call \<Rightarrow> state \<Rightarrow> error + state" where
  "invoke opts (ObserveLatency verb u latency) s =
     latencyAdapter_Observe (RequestLatency opts) verb u latency s"
| "invoke opts (IncrementResult code method host) s =
     resultAdapter_Increment (RequestResult opts) code method host s"
| "invoke opts (SetCertTTL ttl) s = Inr (ttlAdapter_Set (ClientCertTTL opts) ttl s)"
| "invoke opts (ObserveCertRotation d) s =
     Inr (rotationAdapter_Observe (ClientCertRotationAge opts) d s)"

definition dispatch :: "Call \<Rightarrow> state \<Rightarrow> error + state" where
  "dispatch c s = (case hooks s of None \<Rightarrow> Inr s | Some opts \<Rightarrow> invoke opts c s)"

fun run :: "Call list \<Rightarrow> state \<Rightarrow> error + state" where
  "run [] s = Inr s"
| "run (c # cs) s = (case dispatch c s of Inl e \<Rightarrow> Inl e | Inr s' \<Rightarrow> run cs s')"

subsection \<open>Series and the options of their vector\<close>

text \<open>Every series of a histogram vector carries the options, hence the buckets, of the vector.\<close>

definition seriesFollowOpts :: "HistogramVec \<Rightarrow> bool" where
  "seriesFollowOpts hv = (\<forall>lvs h. hvSeries hv lvs = Some h \<longrightarrow> hOpts h = hvOpts hv)"

section \<open>Properties\<close>

subsection \<open>Seconds\<close>

text \<open>Truncating division and remainder by \<open>Second\<close> recombine to the whole duration.\<close>

lemma Seconds_eq: "Seconds d = Finite (real_of_int (sint d) / 1000000000)"
proof -
  have "sint d sdiv 1000000000 * 1000000000 + sint d smod 1000000000 = sint d"
    by (rule sdiv_mult_smod_eq)
  then have "real_of_int (sint d sdiv 1000000000) * 1000000000 + real_of_int (sint d smod 1000000000)
      = real_of_int (sint d)"
    by (metis of_int_add of_int_mult of_int_numeral)
  then show ?thesis
    by (simp add: Seconds_def Second_def field_simps)
qed

subsection \<open>Registration and init\<close>

text \<open>Creation, registration and \<open>Set\<close> leave the description of every instrument alone.\<close>

lemma Describe_Create: "Describe (Create c s) c' = Describe s c'"
  by (cases c; cases c')
    (simp_all add: HistogramVec_Create_def CounterVec_Create_def Gauge_Create_def)

lemma Describe_registry_update: "Describe (s\<lparr>registry := r\<rparr>) c = Describe s c"
  by (cases c) simp_all

lemma Describe_Gauge_Set: "Describe (withGauge p (\<lambda>g. Gauge_Set g v) s) c = Describe s c"
  by (cases c) (simp_all add: withGauge_def Gauge_Set_def)

lemma Create_fields:
  "registry (Create c s) = registry s"
  "hooks (Create c s) = hooks s"
  "hidesDeprecated (Create c s) = hidesDeprecated s"
  "histograms (Create c s) = histograms s"
  by (cases c; simp)+

lemma isHidden_Create: "isHidden (Create c s) c' = isHidden s c'"
  by (simp add: isHidden_def Describe_Create Create_fields)

lemma isHidden_registry_update: "isHidden (s\<lparr>registry := r\<rparr>) c = isHidden s c"
  by (simp add: isHidden_def Describe_registry_update)

lemma isHidden_Gauge_Set: "isHidden (withGauge p (\<lambda>g. Gauge_Set g v) s) c = isHidden s c"
  by (simp add: isHidden_def Describe_Gauge_Set) (simp add: withGauge_def)

text \<open>The three outcomes of a registration.\<close>

lemma MustRegister_eq:
  "MustRegister c s =
     (if isHidden s c then Inr s
      else if fqName (Describe s c) \<in> set (map fqName (registry s))
           then Inl (AlreadyRegistered (fqName (Describe s c)))
           else Inr ((Create c s)\<lparr>registry := registry s @ [Describe s c]\<rparr>))"
  by (simp add: MustRegister_def Let_def Describe_Create Create_fields del: Describe.simps)

lemma MustRegister_InrD:
  assumes "MustRegister c s = Inr s'"
  shows "\<not> isHidden s c \<Longrightarrow> fqName (Describe s c) \<notin> set (map fqName (registry s))"
    and "registry s' = (if isHidden s c then registry s else registry s @ [Describe s c])"
    and "histogramVecs s' = (if isHidden s c then histogramVecs s else histogramVecs (Create c s))"
    and "counterVecs s' = (if isHidden s c then counterVecs s else counterVecs (Create c s))"
    and "gauges s' = (if isHidden s c then gauges s else gauges (Create c s))"
    and "histograms s' = histograms s"
    and "hooks s' = hooks s"
    and "hidesDeprecated s' = hidesDeprecated s"
    and "Describe s' c' = Describe s c'"
    and "isHidden s' c' = isHidden s c'"
  using assms
  by (auto simp: MustRegister_eq Create_fields Describe_Create Describe_registry_update
      isHidden_Create isHidden_registry_update simp del: Describe.simps split: if_splits)

text \<open>What a successful \<open>init\<close> leaves behind, field by field.\<close>

lemma init_Inr:
  assumes "init s0 = Inr s"
  shows "histogramVecs s p =
      (if isHidden s0 (HistogramVecC p) then histogramVecs s0 p
       else HistogramVec_Create (histogramVecs s0 p))"
    and "counterVecs s q =
      (if isHidden s0 (CounterVecC q) then counterVecs s0 q
       else CounterVec_Create (counterVecs s0 q))"
    and "gauges s g =
      (if isHidden s0 (GaugeC g) then Gauge_Set (gauges s0 g) PosInf
       else Gauge_Create (Gauge_Set (gauges s0 g) PosInf))"
    and "histograms s = histograms s0"
    and "registry s = registry s0 @ map (Describe s0) (filter (\<lambda>c. \<not> isHidden s0 c)
        [HistogramVecC requestLatency, HistogramVecC deprecatedRequestLatency,
         CounterVecC requestResult, GaugeC execPluginCertTTL, HistogramC execPluginCertRotation])"
    and "hooks s = Some
        \<lparr>ClientCertTTL = \<lparr>ttlAdapter.m = execPluginCertTTL\<rparr>,
         ClientCertRotationAge = \<lparr>rotationAdapter.m = execPluginCertRotation\<rparr>,
         RequestLatency = \<lparr>latencyAdapter.m = requestLatency, dm = deprecatedRequestLatency\<rparr>,
         RequestResult = \<lparr>resultAdapter.m = requestResult\<rparr>\<rparr>"
    and "hidesDeprecated s = hidesDeprecated s0"
    and "Describe s c = Describe s0 c"
    and "isHidden s c = isHidden s0 c"
    and "\<not> isHidden s0 c \<Longrightarrow> fqName (Describe s0 c) \<notin> set (map fqName (registry s0))"
proof -
  define s1 where "s1 = withGauge execPluginCertTTL (\<lambda>g. Gauge_Set g (math_Inf 1)) s0"
  from assms obtain s2 s3 s4 s5 s6 where
    r1: "MustRegister (HistogramVecC requestLatency) s1 = Inr s2" and
    r2: "MustRegister (HistogramVecC deprecatedRequestLatency) s2 = Inr s3" and
    r3: "MustRegister (CounterVecC requestResult) s3 = Inr s4" and
    r4: "MustRegister (GaugeC execPluginCertTTL) s4 = Inr s5" and
    r5: "MustRegister (HistogramC execPluginCertRotation) s5 = Inr s6" and
    fin: "s = metrics_Register
        \<lparr>ClientCertTTL = \<lparr>ttlAdapter.m = execPluginCertTTL\<rparr>,
         ClientCertRotationAge = \<lparr>rotationAdapter.m = execPluginCertRotation\<rparr>,
         RequestLatency = \<lparr>latencyAdapter.m = requestLatency, dm = deprecatedRequestLatency\<rparr>,
         RequestResult = \<lparr>resultAdapter.m = requestResult\<rparr>\<rparr> s6"
    unfolding init_def Let_def s1_def by (auto split: sum.splits)
  note f1 = MustRegister_InrD [OF r1] and f2 = MustRegister_InrD [OF r2]
    and f3 = MustRegister_InrD [OF r3] and f4 = MustRegister_InrD [OF r4]
    and f5 = MustRegister_InrD [OF r5]
  have d1: "Describe s1 c = Describe s0 c" for c
    by (simp only: s1_def Describe_Gauge_Set)
  have d2: "Describe s2 c = Describe s0 c" for c
    by (simp only: f1(9) d1)
  have d3: "Describe s3 c = Describe s0 c" for c
    by (simp only: f2(9) d2)
  have d4: "Describe s4 c = Describe s0 c" for c
    by (simp only: f3(9) d3)
  have d5: "Describe s5 c = Describe s0 c" for c
    by (simp only: f4(9) d4)
  have d6: "Describe s6 c = Describe s0 c" for c
    by (simp only: f5(9) d5)
  have h1: "isHidden s1 c = isHidden s0 c" for c
    by (simp only: s1_def isHidden_Gauge_Set)
  have h2: "isHidden s2 c = isHidden s0 c" for c
    by (simp only: f1(10) h1)
  have h3: "isHidden s3 c = isHidden s0 c" for c
    by (simp only: f2(10) h2)
  have h4: "isHidden s4 c = isHidden s0 c" for c
    by (simp only: f3(10) h3)
  have h5: "isHidden s5 c = isHidden s0 c" for c
    by (simp only: f4(10) h4)
  have h6: "isHidden s6 c = isHidden s0 c" for c
    by (simp only: f5(10) h5)
  have g1: "registry s1 = registry s0"
    by (simp add: s1_def withGauge_def)
  have v1: "histogramVecs s1 = histogramVecs s0" "counterVecs s1 = counterVecs s0"
    "histograms s1 = histograms s0" "hidesDeprecated s1 = hidesDeprecated s0"
    by (simp_all add: s1_def withGauge_def)
  have t1: "gauges s1 g = Gauge_Set (gauges s0 g) PosInf" for g
    by (cases g) (simp add: s1_def withGauge_def math_Inf_def)
  have g2: "registry s2 = registry s0 @ map (Describe s0)
      (filter (\<lambda>c. \<not> isHidden s0 c) [HistogramVecC requestLatency])"
    by (simp add: f1(2) g1 h1 d1 del: Describe.simps)
  have g3: "registry s3 = registry s0 @ map (Describe s0)
      (filter (\<lambda>c. \<not> isHidden s0 c)
        [HistogramVecC requestLatency, HistogramVecC deprecatedRequestLatency])"
    by (simp add: f2(2) g2 h2 d2 del: Describe.simps)
  have g4: "registry s4 = registry s0 @ map (Describe s0)
      (filter (\<lambda>c. \<not> isHidden s0 c)
        [HistogramVecC requestLatency, HistogramVecC deprecatedRequestLatency,
         CounterVecC requestResult])"
    by (simp add: f3(2) g3 h3 d3 del: Describe.simps)
  have g5: "registry s5 = registry s0 @ map (Describe s0)
      (filter (\<lambda>c. \<not> isHidden s0 c)
        [HistogramVecC requestLatency, HistogramVecC deprecatedRequestLatency,
         CounterVecC requestResult, GaugeC execPluginCertTTL])"
    by (simp add: f4(2) g4 h4 d4 del: Describe.simps)
  have g6: "registry s6 = registry s0 @ map (Describe s0)
      (filter (\<lambda>c. \<not> isHidden s0 c)
        [HistogramVecC requestLatency, HistogramVecC deprecatedRequestLatency,
         CounterVecC requestResult, GaugeC execPluginCertTTL, HistogramC execPluginCertRotation])"
    by (simp add: f5(2) g5 h5 d5 del: Describe.simps)
  show "histogramVecs s p =
      (if isHidden s0 (HistogramVecC p) then histogramVecs s0 p
       else HistogramVec_Create (histogramVecs s0 p))"
    by (cases p)
      (simp_all add: fin metrics_Register_def f5(3) f4(3) f3(3) f2(3) f1(3) h1 h2 h3 h4 h5 v1)
  show "counterVecs s q =
      (if isHidden s0 (CounterVecC q) then counterVecs s0 q
       else CounterVec_Create (counterVecs s0 q))"
    by (cases q)
      (simp_all add: fin metrics_Register_def f5(4) f4(4) f3(4) f2(4) f1(4) h1 h2 h3 h4 h5 v1)
  show "gauges s g =
      (if isHidden s0 (GaugeC g) then Gauge_Set (gauges s0 g) PosInf
       else Gauge_Create (Gauge_Set (gauges s0 g) PosInf))"
    by (cases g)
      (simp_all add: fin metrics_Register_def f5(5) f4(5) f3(5) f2(5) f1(5) h1 h2 h3 h4 h5 t1)
  show "histograms s = histograms s0"
    by (simp add: fin metrics_Register_def f5(6) f4(6) f3(6) f2(6) f1(6) v1)
  have "registry s = registry s6"
    by (simp add: fin metrics_Register_def)
  then show "registry s = registry s0 @ map (Describe s0) (filter (\<lambda>c. \<not> isHidden s0 c)
        [HistogramVecC requestLatency, HistogramVecC deprecatedRequestLatency,
         CounterVecC requestResult, GaugeC execPluginCertTTL, HistogramC execPluginCertRotation])"
    by (simp only: g6)
  show "hooks s = Some
        \<lparr>ClientCertTTL = \<lparr>ttlAdapter.m = execPluginCertTTL\<rparr>,
         ClientCertRotationAge = \<lparr>rotationAdapter.m = execPluginCertRotation\<rparr>,
         RequestLatency = \<lparr>latencyAdapter.m = requestLatency, dm = deprecatedRequestLatency\<rparr>,
         RequestResult = \<lparr>resultAdapter.m = requestResult\<rparr>\<rparr>"
    by (simp add: fin metrics_Register_def)
  show "hidesDeprecated s = hidesDeprecated s0"
    by (simp add: fin metrics_Register_def f5(8) f4(8) f3(8) f2(8) f1(8) v1)
  have "Describe s c = Describe s6 c"
    by (cases c) (simp_all add: fin metrics_Register_def)
  then show ds: "Describe s c = Describe s0 c"
    by (simp only: d6)
  have "isHidden s c = isHidden s6 c"
    by (simp add: isHidden_def \<open>Describe s c = Describe s6 c\<close> del: Describe.simps)
      (simp add: fin metrics_Register_def)
  then show "isHidden s c = isHidden s0 c"
    by (simp only: h6)
  have n1: "\<not> isHidden s0 (HistogramVecC requestLatency) \<Longrightarrow>
      fqName (Describe s0 (HistogramVecC requestLatency)) \<notin> set (map fqName (registry s0))"
    using f1(1) by (simp add: h1 d1 g1 del: Describe.simps)
  have n2: "\<not> isHidden s0 (HistogramVecC deprecatedRequestLatency) \<Longrightarrow>
      fqName (Describe s0 (HistogramVecC deprecatedRequestLatency))
        \<notin> set (map fqName (registry s0))"
    using f2(1) by (simp add: h2 d2 g2 del: Describe.simps)
  have n3: "\<not> isHidden s0 (CounterVecC requestResult) \<Longrightarrow>
      fqName (Describe s0 (CounterVecC requestResult)) \<notin> set (map fqName (registry s0))"
    using f3(1) by (simp add: h3 d3 g3 del: Describe.simps)
  have n4: "\<not> isHidden s0 (GaugeC execPluginCertTTL) \<Longrightarrow>
      fqName (Describe s0 (GaugeC execPluginCertTTL)) \<notin> set (map fqName (registry s0))"
    using f4(1) by (simp add: h4 d4 g4 del: Describe.simps)
  have n5: "\<not> isHidden s0 (HistogramC execPluginCertRotation) \<Longrightarrow>
      fqName (Describe s0 (HistogramC execPluginCertRotation))
        \<notin> set (map fqName (registry s0))"
    using f5(1) by (simp add: h5 d5 g5 del: Describe.simps)
  show "\<not> isHidden s0 c \<Longrightarrow> fqName (Describe s0 c) \<notin> set (map fqName (registry s0))"
  proof (cases c)
    case (HistogramVecC p)
    then show "\<not> isHidden s0 c \<Longrightarrow> ?thesis"
      using n1 n2 by (cases p) (simp_all del: Describe.simps)
  next
    case (CounterVecC p)
    then show "\<not> isHidden s0 c \<Longrightarrow> ?thesis"
      using n3 by (cases p) (simp_all del: Describe.simps)
  next
    case (GaugeC p)
    then show "\<not> isHidden s0 c \<Longrightarrow> ?thesis"
      using n4 by (cases p) (simp_all del: Describe.simps)
  next
    case (HistogramC p)
    then show "\<not> isHidden s0 c \<Longrightarrow> ?thesis"
      using n5 by (cases p) (simp_all del: Describe.simps)
  qed
qed


subsection \<open>Observations and increments\<close>

lemma Histogram_Observe_sampleCount:
  "sampleCount (Histogram_Observe h v) = sampleCount h + 1"
  by (simp add: Histogram_Observe_def Let_def)

lemma Histogram_Observe_sampleSum:
  "sampleSum (Histogram_Observe h v) = fadd (sampleSum h) v"
  by (simp add: Histogram_Observe_def Let_def)

lemma Histogram_Observe_hOpts:
  "hOpts (Histogram_Observe h v) = hOpts h"
  by (simp add: Histogram_Observe_def Let_def)

text \<open>The three outcomes of an observation on a vector.\<close>

lemma HistogramVec_Observe_not_created:
  "\<not> hvCreated hv \<Longrightarrow> HistogramVec_Observe hv lvs v = Inr hv"
  by (simp add: HistogramVec_Observe_def)

lemma HistogramVec_Observe_invalid:
  "hvCreated hv \<Longrightarrow> find (\<lambda>l. \<not> ValidString l) lvs = Some l \<Longrightarrow>
     HistogramVec_Observe hv lvs v = Inl (InvalidLabelValue l)"
  by (simp add: HistogramVec_Observe_def)

lemma HistogramVec_Observe_valid:
  "hvCreated hv \<Longrightarrow> find (\<lambda>l. \<not> ValidString l) lvs = None \<Longrightarrow>
     HistogramVec_Observe hv lvs v =
       Inr (hv\<lparr>hvSeries := (hvSeries hv)
              (lvs \<mapsto> Histogram_Observe (HistogramVec_WithLabelValues hv lvs) v)\<rparr>)"
  by (simp add: HistogramVec_Observe_def)

lemma HistogramVec_Observe_InrD:
  assumes "HistogramVec_Observe hv lvs v = Inr hv'"
  shows "hvCreated hv' = hvCreated hv"
    and "hvOpts hv' = hvOpts hv"
    and "hvLabels hv' = hvLabels hv"
    and "\<not> hvCreated hv \<Longrightarrow> hv' = hv"
    and "hvCreated hv \<Longrightarrow> hv' = hv\<lparr>hvSeries := (hvSeries hv)
              (lvs \<mapsto> Histogram_Observe (HistogramVec_WithLabelValues hv lvs) v)\<rparr>"
  using assms by (auto simp: HistogramVec_Observe_def split: if_splits option.splits)

lemma CounterVec_Inc_InrD:
  assumes "CounterVec_Inc cv lvs = Inr cv'"
  shows "cvCreated cv' = cvCreated cv"
    and "cvOpts cv' = cvOpts cv"
    and "cvLabels cv' = cvLabels cv"
  using assms by (auto simp: CounterVec_Inc_def split: if_splits option.splits)

lemma withHistogramVec_InrD:
  assumes "withHistogramVec p f s = Inr s'"
  obtains hv' where "f (histogramVecs s p) = Inr hv'"
    and "s' = s\<lparr>histogramVecs := (histogramVecs s)(p := hv')\<rparr>"
  using assms by (auto simp: withHistogramVec_def split: sum.splits)

lemma withCounterVec_InrD:
  assumes "withCounterVec p f s = Inr s'"
  obtains cv' where "f (counterVecs s p) = Inr cv'"
    and "s' = s\<lparr>counterVecs := (counterVecs s)(p := cv')\<rparr>"
  using assms by (auto simp: withCounterVec_def split: sum.splits)

text \<open>Series keep the options of their vector.\<close>

lemma HistogramVec_WithLabelValues_hOpts:
  assumes "seriesFollowOpts hv"
  shows "hOpts (HistogramVec_WithLabelValues hv lvs) = hvOpts hv"
proof (cases "hvSeries hv lvs")
  case None
  then show ?thesis
    by (simp add: HistogramVec_WithLabelValues_def NewHistogram_def)
next
  case (Some h)
  with assms show ?thesis
    by (simp add: HistogramVec_WithLabelValues_def seriesFollowOpts_def)
qed

lemma HistogramVec_Observe_follow:
  assumes "seriesFollowOpts hv"
    and "HistogramVec_Observe hv ks v = Inr hv'"
  shows "seriesFollowOpts hv'"
proof (cases "hvCreated hv")
  case False
  from HistogramVec_Observe_InrD(4) [OF assms(2) False] assms(1) show ?thesis
    by simp
next
  case True
  note hv' = HistogramVec_Observe_InrD(5) [OF assms(2) True]
  show ?thesis
    unfolding seriesFollowOpts_def
  proof (intro allI impI)
    fix lvs h
    assume h: "hvSeries hv' lvs = Some h"
    show "hOpts h = hvOpts hv'"
    proof (cases "lvs = ks")
      case True
      with h have "h = Histogram_Observe (HistogramVec_WithLabelValues hv ks) v"
        by (simp add: hv')
      then show ?thesis
        by (simp add: Histogram_Observe_hOpts HistogramVec_WithLabelValues_hOpts [OF assms(1)]
            HistogramVec_Observe_InrD(2) [OF assms(2)])
    next
      case False
      with h have "hvSeries hv lvs = Some h"
        by (simp add: hv')
      with assms(1) show ?thesis
        by (simp add: seriesFollowOpts_def HistogramVec_Observe_InrD(2) [OF assms(2)])
    qed
  qed
qed

text \<open>
  What a call of the client library that returns leaves alone: the flags, options and
  label names of the instruments, the registry, the hooks, and the link between series
  and vector.
\<close>

lemma latencyAdapter_Observe_InrD:
  assumes "latencyAdapter_Observe l verb u latency s = Inr s'"
  shows "hvCreated (histogramVecs s' p) = hvCreated (histogramVecs s p)"
    and "hvOpts (histogramVecs s' p) = hvOpts (histogramVecs s p)"
    and "hvLabels (histogramVecs s' p) = hvLabels (histogramVecs s p)"
    and "(\<And>q. seriesFollowOpts (histogramVecs s q)) \<Longrightarrow> seriesFollowOpts (histogramVecs s' p)"
    and "counterVecs s' = counterVecs s"
    and "gauges s' = gauges s"
    and "histograms s' = histograms s"
    and "registry s' = registry s"
    and "hooks s' = hooks s"
    and "hidesDeprecated s' = hidesDeprecated s"
proof -
  let ?f = "\<lambda>hv. HistogramVec_Observe hv [verb, URL_String u] (Seconds latency)"
  from assms obtain s1 where
    a1: "withHistogramVec (latencyAdapter.m l) ?f s = Inr s1" and
    a2: "withHistogramVec (dm l) ?f s1 = Inr s'"
    by (auto simp: latencyAdapter_Observe_def split: sum.splits)
  from a1 obtain hv1 where o1: "?f (histogramVecs s (latencyAdapter.m l)) = Inr hv1"
    and s1: "s1 = s\<lparr>histogramVecs := (histogramVecs s)(latencyAdapter.m l := hv1)\<rparr>"
    by (rule withHistogramVec_InrD)
  from a2 obtain hv2 where o2: "?f (histogramVecs s1 (dm l)) = Inr hv2"
    and s': "s' = s1\<lparr>histogramVecs := (histogramVecs s1)(dm l := hv2)\<rparr>"
    by (rule withHistogramVec_InrD)
  note i1 = HistogramVec_Observe_InrD(1-3) [OF o1]
  note i2 = HistogramVec_Observe_InrD(1-3) [OF o2]
  have c1: "hvCreated (histogramVecs s1 q) = hvCreated (histogramVecs s q)" for q
    by (simp add: s1 i1)
  have p1: "hvOpts (histogramVecs s1 q) = hvOpts (histogramVecs s q)" for q
    by (simp add: s1 i1)
  have l1: "hvLabels (histogramVecs s1 q) = hvLabels (histogramVecs s q)" for q
    by (simp add: s1 i1)
  show "hvCreated (histogramVecs s' p) = hvCreated (histogramVecs s p)"
    using c1 by (simp add: s' i2)
  show "hvOpts (histogramVecs s' p) = hvOpts (histogramVecs s p)"
    using p1 by (simp add: s' i2)
  show "hvLabels (histogramVecs s' p) = hvLabels (histogramVecs s p)"
    using l1 by (simp add: s' i2)
  show "counterVecs s' = counterVecs s" "gauges s' = gauges s" "histograms s' = histograms s"
    "registry s' = registry s" "hooks s' = hooks s" "hidesDeprecated s' = hidesDeprecated s"
    by (simp_all add: s' s1)
  assume f: "\<And>q. seriesFollowOpts (histogramVecs s q)"
  have f1: "seriesFollowOpts (histogramVecs s1 q)" for q
    using HistogramVec_Observe_follow [OF f o1] f by (simp add: s1)
  show "seriesFollowOpts (histogramVecs s' p)"
    using HistogramVec_Observe_follow [OF f1 o2] f1 by (simp add: s')
qed

lemma resultAdapter_Increment_InrD:
  assumes "resultAdapter_Increment r code method host s = Inr s'"
  shows "cvCreated (counterVecs s' p) = cvCreated (counterVecs s p)"
    and "cvOpts (counterVecs s' p) = cvOpts (counterVecs s p)"
    and "cvLabels (counterVecs s' p) = cvLabels (counterVecs s p)"
    and "histogramVecs s' = histogramVecs s"
    and "gauges s' = gauges s"
    and "histograms s' = histograms s"
    and "registry s' = registry s"
    and "hooks s' = hooks s"
    and "hidesDeprecated s' = hidesDeprecated s"
proof -
  from assms obtain cv' where
    o: "CounterVec_Inc (counterVecs s (resultAdapter.m r)) [code, method, host] = Inr cv'"
    and s': "s' = s\<lparr>counterVecs := (counterVecs s)(resultAdapter.m r := cv')\<rparr>"
    unfolding resultAdapter_Increment_def by (rule withCounterVec_InrD)
  note i = CounterVec_Inc_InrD [OF o]
  show "cvCreated (counterVecs s' p) = cvCreated (counterVecs s p)"
    "cvOpts (counterVecs s' p) = cvOpts (counterVecs s p)"
    "cvLabels (counterVecs s' p) = cvLabels (counterVecs s p)"
    by (simp_all add: s' i)
  show "histogramVecs s' = histogramVecs s" "gauges s' = gauges s"
    "histograms s' = histograms s" "registry s' = registry s" "hooks s' = hooks s"
    "hidesDeprecated s' = hidesDeprecated s"
    by (simp_all add: s')
qed

lemma ttlAdapter_Set_frame:
  "gCreated (gauges (ttlAdapter_Set e ttl s) p) = gCreated (gauges s p)"
  "gOpts (gauges (ttlAdapter_Set e ttl s) p) = gOpts (gauges s p)"
  "histogramVecs (ttlAdapter_Set e ttl s) = histogramVecs s"
  "counterVecs (ttlAdapter_Set e ttl s) = counterVecs s"
  "histograms (ttlAdapter_Set e ttl s) = histograms s"
  "registry (ttlAdapter_Set e ttl s) = registry s"
  "hooks (ttlAdapter_Set e ttl s) = hooks s"
  "hidesDeprecated (ttlAdapter_Set e ttl s) = hidesDeprecated s"
  by (simp_all add: ttlAdapter_Set_def withGauge_def Gauge_Set_def split: option.split)

lemma rotationAdapter_Observe_frame:
  "hOpts (histograms (rotationAdapter_Observe r d s) p) = hOpts (histograms s p)"
  "histogramVecs (rotationAdapter_Observe r d s) = histogramVecs s"
  "counterVecs (rotationAdapter_Observe r d s) = counterVecs s"
  "gauges (rotationAdapter_Observe r d s) = gauges s"
  "registry (rotationAdapter_Observe r d s) = registry s"
  "hooks (rotationAdapter_Observe r d s) = hooks s"
  "hidesDeprecated (rotationAdapter_Observe r d s) = hidesDeprecated s"
  by (simp_all add: rotationAdapter_Observe_def withHistogram_def Histogram_Observe_hOpts)

lemma dispatch_InrD:
  assumes "dispatch c s = Inr s'"
  shows "hvCreated (histogramVecs s' p) = hvCreated (histogramVecs s p)"
    and "hvOpts (histogramVecs s' p) = hvOpts (histogramVecs s p)"
    and "(\<And>q. seriesFollowOpts (histogramVecs s q)) \<Longrightarrow> seriesFollowOpts (histogramVecs s' p)"
    and "cvCreated (counterVecs s' cp) = cvCreated (counterVecs s cp)"
    and "gCreated (gauges s' gp) = gCreated (gauges s gp)"
    and "hOpts (histograms s' hp) = hOpts (histograms s hp)"
    and "hooks s' = hooks s"
    and "hidesDeprecated s' = hidesDeprecated s"
    and "registry s' = registry s"
    and "\<not> isSetCertTTL c \<Longrightarrow> gauges s' = gauges s"
proof -
  show "hvCreated (histogramVecs s' p) = hvCreated (histogramVecs s p)"
    using assms
    by (cases c; cases "hooks s")
      (auto simp: dispatch_def latencyAdapter_Observe_InrD(1) resultAdapter_Increment_InrD(4)
        ttlAdapter_Set_frame rotationAdapter_Observe_frame)
  show "hvOpts (histogramVecs s' p) = hvOpts (histogramVecs s p)"
    using assms
    by (cases c; cases "hooks s")
      (auto simp: dispatch_def latencyAdapter_Observe_InrD(2) resultAdapter_Increment_InrD(4)
        ttlAdapter_Set_frame rotationAdapter_Observe_frame)
  show "cvCreated (counterVecs s' cp) = cvCreated (counterVecs s cp)"
    using assms
    by (cases c; cases "hooks s")
      (auto simp: dispatch_def latencyAdapter_Observe_InrD(5) resultAdapter_Increment_InrD(1)
        ttlAdapter_Set_frame rotationAdapter_Observe_frame)
  show "gCreated (gauges s' gp) = gCreated (gauges s gp)"
    using assms
    by (cases c; cases "hooks s")
      (auto simp: dispatch_def latencyAdapter_Observe_InrD(6) resultAdapter_Increment_InrD(5)
        ttlAdapter_Set_frame rotationAdapter_Observe_frame)
  show "hOpts (histograms s' hp) = hOpts (histograms s hp)"
    using assms
    by (cases c; cases "hooks s")
      (auto simp: dispatch_def latencyAdapter_Observe_InrD(7) resultAdapter_Increment_InrD(6)
        ttlAdapter_Set_frame rotationAdapter_Observe_frame)
  show "hooks s' = hooks s"
    using assms
    by (cases c; cases "hooks s")
      (auto simp: dispatch_def latencyAdapter_Observe_InrD(9) resultAdapter_Increment_InrD(8)
        ttlAdapter_Set_frame rotationAdapter_Observe_frame)
  show "hidesDeprecated s' = hidesDeprecated s"
    using assms
    by (cases c; cases "hooks s")
      (auto simp: dispatch_def latencyAdapter_Observe_InrD(10) resultAdapter_Increment_InrD(9)
        ttlAdapter_Set_frame rotationAdapter_Observe_frame)
  show "registry s' = registry s"
    using assms
    by (cases c; cases "hooks s")
      (auto simp: dispatch_def latencyAdapter_Observe_InrD(8) resultAdapter_Increment_InrD(7)
        ttlAdapter_Set_frame rotationAdapter_Observe_frame)
  show "\<not> isSetCertTTL c \<Longrightarrow> gauges s' = gauges s"
    using assms
    by (cases c; cases "hooks s")
      (auto simp: dispatch_def latencyAdapter_Observe_InrD(6) resultAdapter_Increment_InrD(5)
        rotationAdapter_Observe_frame)
  assume f: "\<And>q. seriesFollowOpts (histogramVecs s q)"
  show "seriesFollowOpts (histogramVecs s' p)"
    using assms f
    by (cases c; cases "hooks s")
      (auto simp: dispatch_def latencyAdapter_Observe_InrD(4) resultAdapter_Increment_InrD(4)
        ttlAdapter_Set_frame rotationAdapter_Observe_frame)
qed

lemma run_InrD:
  assumes "run cs s = Inr s'"
  shows "hvCreated (histogramVecs s' p) = hvCreated (histogramVecs s p)"
    and "hvOpts (histogramVecs s' p) = hvOpts (histogramVecs s p)"
    and "(\<And>q. seriesFollowOpts (histogramVecs s q)) \<Longrightarrow> seriesFollowOpts (histogramVecs s' p)"
    and "cvCreated (counterVecs s' cp) = cvCreated (counterVecs s cp)"
    and "gCreated (gauges s' gp) = gCreated (gauges s gp)"
    and "hOpts (histograms s' hp) = hOpts (histograms s hp)"
    and "hooks s' = hooks s"
    and "hidesDeprecated s' = hidesDeprecated s"
    and "registry s' = registry s"
    and "\<forall>c \<in> set cs. \<not> isSetCertTTL c \<Longrightarrow> gauges s' = gauges s"
  using assms
proof (induction cs arbitrary: s)
  case Nil
  {
    case 1 then show ?case by simp
  next
    case 2 then show ?case by simp
  next
    case 3 then show ?case by simp
  next
    case 4 then show ?case by simp
  next
    case 5 then show ?case by simp
  next
    case 6 then show ?case by simp
  next
    case 7 then show ?case by simp
  next
    case 8 then show ?case by simp
  next
    case 9 then show ?case by simp
  next
    case 10 then show ?case by simp
  }
next
  case (Cons c cs)
  {
    case 1
    then obtain s1 where d: "dispatch c s = Inr s1" and r: "run cs s1 = Inr s'"
      by (auto split: sum.splits)
    show ?case by (simp add: Cons.IH(1) [OF r] dispatch_InrD(1) [OF d])
  next
    case 2
    then obtain s1 where d: "dispatch c s = Inr s1" and r: "run cs s1 = Inr s'"
      by (auto split: sum.splits)
    show ?case by (simp add: Cons.IH(2) [OF r] dispatch_InrD(2) [OF d])
  next
    case 3
    then obtain s1 where d: "dispatch c s = Inr s1" and r: "run cs s1 = Inr s'"
      by (auto split: sum.splits)
    have "seriesFollowOpts (histogramVecs s1 q)" for q
      using dispatch_InrD(3) [OF d] 3(1) by blast
    then show ?case by (rule Cons.IH(3) [OF _ r])
  next
    case 4
    then obtain s1 where d: "dispatch c s = Inr s1" and r: "run cs s1 = Inr s'"
      by (auto split: sum.splits)
    show ?case by (simp add: Cons.IH(4) [OF r] dispatch_InrD(4) [OF d])
  next
    case 5
    then obtain s1 where d: "dispatch c s = Inr s1" and r: "run cs s1 = Inr s'"
      by (auto split: sum.splits)
    show ?case by (simp add: Cons.IH(5) [OF r] dispatch_InrD(5) [OF d])
  next
    case 6
    then obtain s1 where d: "dispatch c s = Inr s1" and r: "run cs s1 = Inr s'"
      by (auto split: sum.splits)
    show ?case by (simp add: Cons.IH(6) [OF r] dispatch_InrD(6) [OF d])
  next
    case 7
    then obtain s1 where d: "dispatch c s = Inr s1" and r: "run cs s1 = Inr s'"
      by (auto split: sum.splits)
    show ?case by (simp add: Cons.IH(7) [OF r] dispatch_InrD(7) [OF d])
  next
    case 8
    then obtain s1 where d: "dispatch c s = Inr s1" and r: "run cs s1 = Inr s'"
      by (auto split: sum.splits)
    show ?case by (simp add: Cons.IH(8) [OF r] dispatch_InrD(8) [OF d])
  next
    case 9
    then obtain s1 where d: "dispatch c s = Inr s1" and r: "run cs s1 = Inr s'"
      by (auto split: sum.splits)
    show ?case by (simp add: Cons.IH(9) [OF r] dispatch_InrD(9) [OF d])
  next
    case 10
    then obtain s1 where d: "dispatch c s = Inr s1" and r: "run cs s1 = Inr s'"
      by (auto split: sum.splits)
    from 10(1) have n: "\<not> isSetCertTTL c" and ns: "\<forall>c \<in> set cs. \<not> isSetCertTTL c"
      by simp_all
    show ?case by (simp add: Cons.IH(10) [OF ns r] dispatch_InrD(10) [OF d n])
  }
qed

subsection \<open>The package's own variables\<close>

text \<open>The descriptions of the five instruments the package constructs.\<close>

lemma vars_Describe:
  "map (Describe (vars reg hide))
     [HistogramVecC requestLatency, HistogramVecC deprecatedRequestLatency,
      CounterVecC requestResult, GaugeC execPluginCertTTL, HistogramC execPluginCertRotation]
   = [\<lparr>fqName = ''rest_client_request_duration_seconds'', variableLabels = [''verb'', ''url''],
        metricType = HistogramType, deprecatedVersion = []\<rparr>,
      \<lparr>fqName = ''rest_client_request_latency_seconds'', variableLabels = [''verb'', ''url''],
        metricType = HistogramType, deprecatedVersion = ''1.14.0''\<rparr>,
      \<lparr>fqName = ''rest_client_requests_total'', variableLabels = [''code'', ''method'', ''host''],
        metricType = CounterType, deprecatedVersion = []\<rparr>,
      \<lparr>fqName = ''rest_client_exec_plugin_ttl_seconds'', variableLabels = [],
        metricType = GaugeType, deprecatedVersion = []\<rparr>,
      \<lparr>fqName = ''rest_client_exec_plugin_certificate_rotation_age'', variableLabels = [],
        metricType = HistogramType, deprecatedVersion = []\<rparr>]"
  by (simp add: vars_def NewHistogramVec_def NewCounterVec_def NewGauge_def NewHistogram_def)

lemma Registerable_five:
  "c \<in> set [HistogramVecC requestLatency, HistogramVecC deprecatedRequestLatency,
         CounterVecC requestResult, GaugeC execPluginCertTTL, HistogramC execPluginCertRotation]"
proof (cases c)
  case (HistogramVecC p)
  then show ?thesis by (cases p) simp_all
next
  case (CounterVecC p)
  then show ?thesis by (cases p) simp_all
next
  case (GaugeC p)
  then show ?thesis by (cases p) simp_all
next
  case (HistogramC p)
  then show ?thesis by (cases p) simp_all
qed

text \<open>Only the vector deprecated in 1.14.0 can be hidden.\<close>

lemma vars_isHidden:
  "isHidden (vars reg hide) (HistogramVecC requestLatency) = False"
  "isHidden (vars reg hide) (HistogramVecC deprecatedRequestLatency) = hide ''1.14.0''"
  "isHidden (vars reg hide) (CounterVecC requestResult) = False"
  "isHidden (vars reg hide) (GaugeC execPluginCertTTL) = False"
  "isHidden (vars reg hide) (HistogramC execPluginCertRotation) = False"
  by (simp_all add: isHidden_def vars_def NewHistogramVec_def NewCounterVec_def NewGauge_def
      NewHistogram_def)

lemma vars_fields:
  "registry (vars reg hide) = reg"
  "hidesDeprecated (vars reg hide) = hide"
  "hooks (vars reg hide) = None"
  "hvCreated (histogramVecs (vars reg hide) p) = False"
  "hvSeries (histogramVecs (vars reg hide) p) lvs = None"
  "cvCreated (counterVecs (vars reg hide) q) = False"
  "cvSeries (counterVecs (vars reg hide) q) lvs = None"
  "gCreated (gauges (vars reg hide) g) = False"
  "gValue (gauges (vars reg hide) g) = Finite 0"
  "sampleCount (histograms (vars reg hide) h) = 0"
  "sampleSum (histograms (vars reg hide) h) = Finite 0"
  by (cases p; cases q; cases g; cases h;
      simp add: vars_def NewHistogramVec_def NewCounterVec_def NewGauge_def NewHistogram_def)+

lemma vars_histogramVecs_Buckets:
  "Buckets (hvOpts (histogramVecs (vars reg hide) p)) = ExponentialBuckets 0.001 2 10"
  by (cases p) (simp_all add: vars_def NewHistogramVec_def)


text \<open>On an empty registry \<open>init\<close> returns.\<close>

lemma init_vars_empty: "\<exists>s. init (vars [] hide) = Inr s"
  by (simp add: init_def Let_def MustRegister_def isHidden_def vars_def withGauge_def Gauge_Set_def
      metrics_Register_def NewHistogramVec_def NewCounterVec_def NewGauge_def NewHistogram_def
      HistogramVec_Create_def CounterVec_Create_def Gauge_Create_def)

text \<open>The instruments after \<open>init\<close>, and after the calls of the client library that follow.\<close>

lemma init_vars:
  assumes "init (vars reg hide) = Inr s"
  shows "hvCreated (histogramVecs s requestLatency)"
    and "hvCreated (histogramVecs s deprecatedRequestLatency) = (\<not> hide ''1.14.0'')"
    and "hvSeries (histogramVecs s p) lvs = None"
    and "hvOpts (histogramVecs s p) = hvOpts (histogramVecs (vars reg hide) p)"
    and "seriesFollowOpts (histogramVecs s p)"
    and "cvCreated (counterVecs s q)"
    and "cvSeries (counterVecs s q) lvs = None"
    and "gCreated (gauges s g)"
    and "gValue (gauges s g) = Finite 0"
    and "hidesDeprecated s = hide"
proof -
  note i = init_Inr [OF assms]
  show "hvCreated (histogramVecs s requestLatency)"
    by (simp add: i(1) vars_isHidden HistogramVec_Create_def)
  show "hvCreated (histogramVecs s deprecatedRequestLatency) = (\<not> hide ''1.14.0'')"
    by (simp add: i(1) vars_isHidden HistogramVec_Create_def vars_fields)
  show n: "hvSeries (histogramVecs s p) lvs = None"
    by (cases p) (simp_all add: i(1) vars_isHidden HistogramVec_Create_def vars_fields)
  show "hvOpts (histogramVecs s p) = hvOpts (histogramVecs (vars reg hide) p)"
    by (cases p) (simp_all add: i(1) vars_isHidden HistogramVec_Create_def vars_fields)
  show "seriesFollowOpts (histogramVecs s p)"
    by (simp add: seriesFollowOpts_def i(1) vars_fields HistogramVec_Create_def)
  show "cvCreated (counterVecs s q)"
    by (cases q) (simp add: i(2) vars_isHidden CounterVec_Create_def)
  show "cvSeries (counterVecs s q) lvs = None"
    by (cases q) (simp add: i(2) vars_isHidden CounterVec_Create_def vars_fields)
  show "gCreated (gauges s g)"
    by (cases g) (simp add: i(3) vars_isHidden Gauge_Create_def)
  show "gValue (gauges s g) = Finite 0"
    by (cases g) (simp add: i(3) vars_isHidden Gauge_Create_def Gauge_Set_def vars_fields)
  show "hidesDeprecated s = hide"
    by (simp add: i(7) vars_fields)
qed

subsection \<open>The TTL adapter\<close>

text \<open>
  C2: for every prior state of the created gauge, \<open>ttlAdapter.Set\<close> with the nil pointer
  leaves the TTL gauge at positive infinity. The call is total (it yields a state, there
  is no error branch), and it changes nothing but the value of the gauge. The adapter
  exists only after \<open>init\<close> has registered, and so created, the gauge.
\<close>

theorem ttlAdapter_Set_nil:
  assumes "gCreated (gauges s (ttlAdapter.m e))"
  shows "gValue (gauges (ttlAdapter_Set e None s) (ttlAdapter.m e)) = PosInf
   \<and> gOpts (gauges (ttlAdapter_Set e None s) (ttlAdapter.m e)) = gOpts (gauges s (ttlAdapter.m e))
   \<and> gCreated (gauges (ttlAdapter_Set e None s) (ttlAdapter.m e))
   \<and> histogramVecs (ttlAdapter_Set e None s) = histogramVecs s
   \<and> counterVecs (ttlAdapter_Set e None s) = counterVecs s
   \<and> histograms (ttlAdapter_Set e None s) = histograms s
   \<and> registry (ttlAdapter_Set e None s) = registry s
   \<and> hooks (ttlAdapter_Set e None s) = hooks s"
  using assms by (simp add: ttlAdapter_Set_def withGauge_def Gauge_Set_def math_Inf_def)

text \<open>After \<open>init\<close> on an empty registry the gauge is created, and \<open>Set(nil)\<close> moves it to infinity.\<close>

theorem ttlAdapter_Set_nil_witness:
  "\<exists>s. init (vars [] hidesNothing) = Inr s
     \<and> gCreated (gauges s execPluginCertTTL)
     \<and> gValue (gauges (ttlAdapter_Set \<lparr>ttlAdapter.m = execPluginCertTTL\<rparr> None s)
          execPluginCertTTL) = PosInf"
proof -
  from init_vars_empty obtain s where i: "init (vars [] hidesNothing) = Inr s" ..
  have c: "gCreated (gauges s (ttlAdapter.m \<lparr>ttlAdapter.m = execPluginCertTTL\<rparr>))"
    by (simp add: init_vars(8) [OF i])
  from ttlAdapter_Set_nil [OF c]
  have "gValue (gauges (ttlAdapter_Set \<lparr>ttlAdapter.m = execPluginCertTTL\<rparr> None s)
          execPluginCertTTL) = PosInf"
    by simp
  with i init_vars(8) [OF i, of execPluginCertTTL] show ?thesis
    by (intro exI conjI)
qed

text \<open>
  C3: for every duration \<open>d\<close> and every prior state of the created gauge, \<open>ttlAdapter.Set\<close>
  with a pointer to \<open>d\<close> leaves the TTL gauge at \<open>d.Seconds()\<close>, which is \<open>d\<close> nanoseconds
  in seconds; for a negative \<open>d\<close> the gauge holds that negative number, it is not clamped.
\<close>

theorem ttlAdapter_Set_duration:
  assumes "gCreated (gauges s (ttlAdapter.m e))"
  shows "gValue (gauges (ttlAdapter_Set e (Some d) s) (ttlAdapter.m e)) = Seconds d
   \<and> Seconds d = Finite (real_of_int (sint d) / 1000000000)
   \<and> (sint d < 0 \<longrightarrow>
        (\<exists>r. r < 0 \<and> gValue (gauges (ttlAdapter_Set e (Some d) s) (ttlAdapter.m e)) = Finite r))"
proof (intro conjI impI)
  show v: "gValue (gauges (ttlAdapter_Set e (Some d) s) (ttlAdapter.m e)) = Seconds d"
    using assms by (simp add: ttlAdapter_Set_def withGauge_def Gauge_Set_def)
  show "Seconds d = Finite (real_of_int (sint d) / 1000000000)"
    by (rule Seconds_eq)
  assume "sint d < 0"
  then have "real_of_int (sint d) < 0"
    by (simp only: of_int_less_0_iff)
  then have neg: "real_of_int (sint d) / 1000000000 < 0"
    by (rule divide_neg_pos) simp
  have "gValue (gauges (ttlAdapter_Set e (Some d) s) (ttlAdapter.m e))
      = Finite (real_of_int (sint d) / 1000000000)"
    using v Seconds_eq [of d] by (simp only:)
  with neg show "\<exists>r. r < 0 \<and> gValue (gauges (ttlAdapter_Set e (Some d) s) (ttlAdapter.m e)) = Finite r"
    by blast
qed

text \<open>An expired certificate, one and a half seconds past its expiry, after \<open>init\<close>.\<close>

theorem ttlAdapter_Set_duration_witness:
  "sint (-1500000000 :: Duration) < 0
   \<and> (\<exists>s. init (vars [] hidesNothing) = Inr s
        \<and> gCreated (gauges s execPluginCertTTL)
        \<and> gValue (gauges (ttlAdapter_Set \<lparr>ttlAdapter.m = execPluginCertTTL\<rparr>
               (Some (-1500000000)) s) execPluginCertTTL) = Finite (-1.5))"
proof -
  from init_vars_empty obtain s where i: "init (vars [] hidesNothing) = Inr s" ..
  have c: "gCreated (gauges s (ttlAdapter.m \<lparr>ttlAdapter.m = execPluginCertTTL\<rparr>))"
    by (simp add: init_vars(8) [OF i])
  from ttlAdapter_Set_duration [OF c, of "-1500000000"]
  have "gValue (gauges (ttlAdapter_Set \<lparr>ttlAdapter.m = execPluginCertTTL\<rparr>
               (Some (-1500000000)) s) execPluginCertTTL) = Finite (-1.5)"
    by simp
  with i init_vars(8) [OF i, of execPluginCertTTL]
  have "\<exists>s. init (vars [] hidesNothing) = Inr s
        \<and> gCreated (gauges s execPluginCertTTL)
        \<and> gValue (gauges (ttlAdapter_Set \<lparr>ttlAdapter.m = execPluginCertTTL\<rparr>
               (Some (-1500000000)) s) execPluginCertTTL) = Finite (-1.5)"
    by (intro exI conjI)
  then show ?thesis
    by simp
qed

subsection \<open>The TTL gauge after init\<close>

text \<open>
  C4: the claim is that after \<open>init\<close> and before any call of \<open>ttlAdapter.Set\<close> the TTL gauge
  reads positive infinity. \<open>init\<close> calls \<open>Set(math.Inf(1))\<close> before it registers the
  gauge; the gauge is created by its registration, so that \<open>Set\<close> is lost: after \<open>init\<close>
  on the package's variables, and after any calls of the client library other than
  \<open>Set\<close>, the gauge reads zero, not positive infinity.
\<close>

theorem init_gauge_zero:
  assumes "init (vars reg hide) = Inr s"
    and "\<forall>c \<in> set cs. \<not> isSetCertTTL c"
    and "run cs s = Inr s'"
  shows "gValue (gauges s' execPluginCertTTL) = Finite 0
    \<and> gValue (gauges s' execPluginCertTTL) \<noteq> PosInf"
  by (simp add: run_InrD(10) [OF assms(3) assms(2)] init_vars(9) [OF assms(1)])

text \<open>
  \<open>init\<close> on an empty registry returns; the gauge reads zero then, and still does after
  a rotation observation.
\<close>

theorem init_gauge_zero_witness:
  "map isSetCertTTL [ObserveCertRotation 3600000000000] = [False]
   \<and> (\<exists>s s'. init (vars [] hidesNothing) = Inr s
        \<and> run [ObserveCertRotation 3600000000000] s = Inr s'
        \<and> gValue (gauges s execPluginCertTTL) = Finite 0
        \<and> gValue (gauges s' execPluginCertTTL) = Finite 0)"
proof -
  from init_vars_empty obtain s where i: "init (vars [] hidesNothing) = Inr s" ..
  have n: "\<forall>c \<in> set [ObserveCertRotation 3600000000000]. \<not> isSetCertTTL c"
    by simp
  have e: "\<forall>c \<in> set []. \<not> isSetCertTTL c"
    by simp
  obtain s' where r: "run [ObserveCertRotation 3600000000000] s = Inr s'"
    by (simp add: dispatch_def init_Inr(6) [OF i])
  have r0: "run [] s = Inr s"
    by simp
  have z: "gValue (gauges s execPluginCertTTL) = Finite 0"
    using init_gauge_zero [OF i e r0] by (rule conjunct1)
  have z': "gValue (gauges s' execPluginCertTTL) = Finite 0"
    using init_gauge_zero [OF i n r] by (rule conjunct1)
  from i r z z' have "\<exists>s s'. init (vars [] hidesNothing) = Inr s
        \<and> run [ObserveCertRotation 3600000000000] s = Inr s'
        \<and> gValue (gauges s execPluginCertTTL) = Finite 0
        \<and> gValue (gauges s' execPluginCertTTL) = Finite 0"
    by (intro exI conjI)
  then show ?thesis
    by simp
qed

subsection \<open>The exported instruments\<close>

text \<open>
  C7: the package constructs exactly five instruments. Their exported names, label names
  and kinds are: \<open>rest_client_request_duration_seconds\<close> with \<open>verb, url\<close> (histogram),
  \<open>rest_client_request_latency_seconds\<close> with \<open>verb, url\<close> (histogram, deprecated since
  1.14.0), \<open>rest_client_requests_total\<close> with \<open>code, method, host\<close> (counter),
  \<open>rest_client_exec_plugin_ttl_seconds\<close> without labels (gauge) and
  \<open>rest_client_exec_plugin_certificate_rotation_age\<close> without labels (histogram). Every
  instrument of the package is one of these five. A successful \<open>init\<close> adds their
  descriptions to the registry, in this order: all five, or the four that are not
  deprecated where the registry hides what was deprecated in 1.14.0.
\<close>

theorem exported_instruments:
  "map (Describe (vars reg hide))
     [HistogramVecC requestLatency, HistogramVecC deprecatedRequestLatency,
      CounterVecC requestResult, GaugeC execPluginCertTTL, HistogramC execPluginCertRotation]
   = [\<lparr>fqName = ''rest_client_request_duration_seconds'', variableLabels = [''verb'', ''url''],
        metricType = HistogramType, deprecatedVersion = []\<rparr>,
      \<lparr>fqName = ''rest_client_request_latency_seconds'', variableLabels = [''verb'', ''url''],
        metricType = HistogramType, deprecatedVersion = ''1.14.0''\<rparr>,
      \<lparr>fqName = ''rest_client_requests_total'', variableLabels = [''code'', ''method'', ''host''],
        metricType = CounterType, deprecatedVersion = []\<rparr>,
      \<lparr>fqName = ''rest_client_exec_plugin_ttl_seconds'', variableLabels = [],
        metricType = GaugeType, deprecatedVersion = []\<rparr>,
      \<lparr>fqName = ''rest_client_exec_plugin_certificate_rotation_age'', variableLabels = [],
        metricType = HistogramType, deprecatedVersion = []\<rparr>]
   \<and> (\<forall>c. c \<in> set [HistogramVecC requestLatency, HistogramVecC deprecatedRequestLatency,
         CounterVecC requestResult, GaugeC execPluginCertTTL, HistogramC execPluginCertRotation])
   \<and> (\<forall>s. init (vars reg hide) = Inr s \<longrightarrow>
         registry s = reg @ map (Describe (vars reg hide))
           (if hide ''1.14.0''
            then [HistogramVecC requestLatency,
                  CounterVecC requestResult, GaugeC execPluginCertTTL,
                  HistogramC execPluginCertRotation]
            else [HistogramVecC requestLatency, HistogramVecC deprecatedRequestLatency,
                  CounterVecC requestResult, GaugeC execPluginCertTTL,
                  HistogramC execPluginCertRotation])
         \<and> (\<forall>c. Describe s c = Describe (vars reg hide) c))"
proof (intro conjI allI impI)
  show "map (Describe (vars reg hide))
     [HistogramVecC requestLatency, HistogramVecC deprecatedRequestLatency,
      CounterVecC requestResult, GaugeC execPluginCertTTL, HistogramC execPluginCertRotation]
   = [\<lparr>fqName = ''rest_client_request_duration_seconds'', variableLabels = [''verb'', ''url''],
        metricType = HistogramType, deprecatedVersion = []\<rparr>,
      \<lparr>fqName = ''rest_client_request_latency_seconds'', variableLabels = [''verb'', ''url''],
        metricType = HistogramType, deprecatedVersion = ''1.14.0''\<rparr>,
      \<lparr>fqName = ''rest_client_requests_total'', variableLabels = [''code'', ''method'', ''host''],
        metricType = CounterType, deprecatedVersion = []\<rparr>,
      \<lparr>fqName = ''rest_client_exec_plugin_ttl_seconds'', variableLabels = [],
        metricType = GaugeType, deprecatedVersion = []\<rparr>,
      \<lparr>fqName = ''rest_client_exec_plugin_certificate_rotation_age'', variableLabels = [],
        metricType = HistogramType, deprecatedVersion = []\<rparr>]"
    by (rule vars_Describe)
next
  fix c
  show "c \<in> set [HistogramVecC requestLatency, HistogramVecC deprecatedRequestLatency,
         CounterVecC requestResult, GaugeC execPluginCertTTL, HistogramC execPluginCertRotation]"
    by (rule Registerable_five)
next
  fix s
  assume i: "init (vars reg hide) = Inr s"
  show "registry s = reg @ map (Describe (vars reg hide))
           (if hide ''1.14.0''
            then [HistogramVecC requestLatency,
                  CounterVecC requestResult, GaugeC execPluginCertTTL,
                  HistogramC execPluginCertRotation]
            else [HistogramVecC requestLatency, HistogramVecC deprecatedRequestLatency,
                  CounterVecC requestResult, GaugeC execPluginCertTTL,
                  HistogramC execPluginCertRotation])"
    by (simp add: init_Inr(5) [OF i] vars_isHidden vars_fields del: Describe.simps)
next
  fix s c
  assume "init (vars reg hide) = Inr s"
  then show "Describe s c = Describe (vars reg hide) c"
    by (rule init_Inr(8))
qed

text \<open>
  Starting from an empty registry, \<open>init\<close> returns and the registry holds the five; where
  the registry hides what was deprecated in 1.14.0 it holds the other four.
\<close>

theorem exported_instruments_witness:
  "(\<exists>s. init (vars [] hidesNothing) = Inr s
     \<and> map (\<lambda>d. (fqName d, variableLabels d, metricType d, deprecatedVersion d \<noteq> [])) (registry s)
       = [(''rest_client_request_duration_seconds'', [''verb'', ''url''], HistogramType, False),
          (''rest_client_request_latency_seconds'', [''verb'', ''url''], HistogramType, True),
          (''rest_client_requests_total'', [''code'', ''method'', ''host''], CounterType, False),
          (''rest_client_exec_plugin_ttl_seconds'', [], GaugeType, False),
          (''rest_client_exec_plugin_certificate_rotation_age'', [], HistogramType, False)])
   \<and> (\<exists>s. init (vars [] hides_1_14) = Inr s
     \<and> map fqName (registry s)
       = [''rest_client_request_duration_seconds'',
          ''rest_client_requests_total'',
          ''rest_client_exec_plugin_ttl_seconds'',
          ''rest_client_exec_plugin_certificate_rotation_age''])"
proof -
  from init_vars_empty obtain s where i: "init (vars [] hidesNothing) = Inr s" ..
  from init_vars_empty obtain t where j: "init (vars [] hides_1_14) = Inr t" ..
  note a = exported_instruments [of "[]" hidesNothing]
  note b = exported_instruments [of "[]" hides_1_14]
  note descs = a [THEN conjunct1]
  note regs = a [THEN conjunct2, THEN conjunct2, THEN spec, THEN mp, OF i, THEN conjunct1]
  note regt = b [THEN conjunct2, THEN conjunct2, THEN spec, THEN mp, OF j, THEN conjunct1]
  have rs: "registry s = map (Describe (vars [] hidesNothing))
      [HistogramVecC requestLatency, HistogramVecC deprecatedRequestLatency,
       CounterVecC requestResult, GaugeC execPluginCertTTL, HistogramC execPluginCertRotation]"
    using regs by (simp add: hidesNothing_def del: Describe.simps)
  have 1: "map (\<lambda>d. (fqName d, variableLabels d, metricType d, deprecatedVersion d \<noteq> []))
      (registry s)
       = [(''rest_client_request_duration_seconds'', [''verb'', ''url''], HistogramType, False),
          (''rest_client_request_latency_seconds'', [''verb'', ''url''], HistogramType, True),
          (''rest_client_requests_total'', [''code'', ''method'', ''host''], CounterType, False),
          (''rest_client_exec_plugin_ttl_seconds'', [], GaugeType, False),
          (''rest_client_exec_plugin_certificate_rotation_age'', [], HistogramType, False)]"
    unfolding rs descs by simp
  have rt: "registry t = map (Describe (vars [] hides_1_14))
      [HistogramVecC requestLatency,
       CounterVecC requestResult, GaugeC execPluginCertTTL, HistogramC execPluginCertRotation]"
    using regt by (simp add: hides_1_14_def del: Describe.simps)
  have 2: "map fqName (registry t)
       = [''rest_client_request_duration_seconds'',
          ''rest_client_requests_total'',
          ''rest_client_exec_plugin_ttl_seconds'',
          ''rest_client_exec_plugin_certificate_rotation_age'']"
    unfolding rt
    by (simp add: vars_def NewHistogramVec_def NewCounterVec_def NewGauge_def NewHistogram_def)
  from i 1 have A: "\<exists>s. init (vars [] hidesNothing) = Inr s
     \<and> map (\<lambda>d. (fqName d, variableLabels d, metricType d, deprecatedVersion d \<noteq> [])) (registry s)
       = [(''rest_client_request_duration_seconds'', [''verb'', ''url''], HistogramType, False),
          (''rest_client_request_latency_seconds'', [''verb'', ''url''], HistogramType, True),
          (''rest_client_requests_total'', [''code'', ''method'', ''host''], CounterType, False),
          (''rest_client_exec_plugin_ttl_seconds'', [], GaugeType, False),
          (''rest_client_exec_plugin_certificate_rotation_age'', [], HistogramType, False)]"
    by (intro exI conjI)
  from j 2 have B: "\<exists>s. init (vars [] hides_1_14) = Inr s
     \<and> map fqName (registry s)
       = [''rest_client_request_duration_seconds'',
          ''rest_client_requests_total'',
          ''rest_client_exec_plugin_ttl_seconds'',
          ''rest_client_exec_plugin_certificate_rotation_age'']"
    by (intro exI conjI)
  from A B show ?thesis
    by (rule conjI)
qed

subsection \<open>Duplicate registration\<close>






subsection \<open>The rotation adapter\<close>

text \<open>
  C6: for every duration \<open>d\<close> and every prior state, \<open>rotationAdapter.Observe\<close> makes one
  observation of \<open>d.Seconds()\<close> on the rotation-age histogram: its sample count grows by
  one and \<open>d.Seconds()\<close> is added to its sum (a finite sum \<open>x\<close> becomes \<open>x\<close> plus \<open>d\<close>
  nanoseconds in seconds); the options of the histogram and all other instruments, the
  registry and the hooks stay as they were.
\<close>

theorem rotationAdapter_Observe_effect:
  "histograms (rotationAdapter_Observe r d s) (rotationAdapter.m r)
     = Histogram_Observe (histograms s (rotationAdapter.m r)) (Seconds d)
   \<and> sampleCount (histograms (rotationAdapter_Observe r d s) (rotationAdapter.m r))
     = sampleCount (histograms s (rotationAdapter.m r)) + 1
   \<and> sampleSum (histograms (rotationAdapter_Observe r d s) (rotationAdapter.m r))
     = fadd (sampleSum (histograms s (rotationAdapter.m r))) (Seconds d)
   \<and> (\<forall>x. sampleSum (histograms s (rotationAdapter.m r)) = Finite x \<longrightarrow>
         sampleSum (histograms (rotationAdapter_Observe r d s) (rotationAdapter.m r))
           = Finite (x + real_of_int (sint d) / 1000000000))
   \<and> hOpts (histograms (rotationAdapter_Observe r d s) (rotationAdapter.m r))
       = hOpts (histograms s (rotationAdapter.m r))
   \<and> histogramVecs (rotationAdapter_Observe r d s) = histogramVecs s
   \<and> counterVecs (rotationAdapter_Observe r d s) = counterVecs s
   \<and> gauges (rotationAdapter_Observe r d s) = gauges s
   \<and> registry (rotationAdapter_Observe r d s) = registry s
   \<and> hooks (rotationAdapter_Observe r d s) = hooks s"
  by (simp add: rotationAdapter_Observe_def withHistogram_def Histogram_Observe_sampleCount
      Histogram_Observe_sampleSum Histogram_Observe_hOpts Seconds_eq)

text \<open>A certificate rotated after one hour, on the histogram as \<open>init\<close> leaves it.\<close>

theorem rotationAdapter_Observe_effect_witness:
  "\<exists>s. init (vars [] hidesNothing) = Inr s
     \<and> sampleSum (histograms s execPluginCertRotation) = Finite 0
     \<and> sampleCount (histograms (rotationAdapter_Observe \<lparr>rotationAdapter.m = execPluginCertRotation\<rparr>
           3600000000000 s) execPluginCertRotation) = 1
     \<and> sampleSum (histograms (rotationAdapter_Observe \<lparr>rotationAdapter.m = execPluginCertRotation\<rparr>
           3600000000000 s) execPluginCertRotation) = Finite 3600"
proof -
  from init_vars_empty obtain s where i: "init (vars [] hidesNothing) = Inr s" ..
  have s0: "sampleSum (histograms s execPluginCertRotation) = Finite 0"
    by (simp add: init_Inr(4) [OF i] vars_fields)
  have c0: "sampleCount (histograms s execPluginCertRotation) = 0"
    by (simp add: init_Inr(4) [OF i] vars_fields)
  have "sampleCount (histograms (rotationAdapter_Observe \<lparr>rotationAdapter.m = execPluginCertRotation\<rparr>
           3600000000000 s) execPluginCertRotation) = 1
     \<and> sampleSum (histograms (rotationAdapter_Observe \<lparr>rotationAdapter.m = execPluginCertRotation\<rparr>
           3600000000000 s) execPluginCertRotation) = Finite 3600"
    using rotationAdapter_Observe_effect [of "\<lparr>rotationAdapter.m = execPluginCertRotation\<rparr>"
        3600000000000 s] s0 c0
    by (simp add: Seconds_eq Histogram_Observe_sampleCount Histogram_Observe_sampleSum)
  with i s0 show ?thesis
    by (intro exI [of _ s] conjI) simp_all
qed

subsection \<open>The result adapter\<close>

lemma ValidString_examples:
  "ValidString ''GET''" "ValidString ''200''" "ValidString ''404''"
  "ValidString ''api.example.com''" "ValidString ''https://api.example.com/api''"
  "\<not> ValidString [CHR 0xFF]"
  by (simp_all add: ValidString_def leading_def)

text \<open>
  C5, as the code has it: for every label tuple \<open>(code, method, host)\<close> of strings that
  are valid UTF-8, one call of \<open>resultAdapter.Increment\<close> on a counter vector that its
  registration has created (as \<open>init\<close> does) returns, leaves the counter series of that
  tuple one above its value before (a series that did not exist counts as zero), leaves
  the series of every other label tuple as it was, and changes nothing else.
\<close>

theorem resultAdapter_Increment_series:
  assumes "ValidString code" and "ValidString method" and "ValidString host"
    and "cvCreated (counterVecs s (resultAdapter.m r))"
  shows "\<exists>s'. resultAdapter_Increment r code method host s = Inr s'
   \<and> cvSeries (counterVecs s' (resultAdapter.m r)) [code, method, host]
       = Some (CounterVec_WithLabelValues (counterVecs s (resultAdapter.m r)) [code, method, host] + 1)
   \<and> CounterVec_WithLabelValues (counterVecs s' (resultAdapter.m r)) [code, method, host]
       = CounterVec_WithLabelValues (counterVecs s (resultAdapter.m r)) [code, method, host] + 1
   \<and> (\<forall>lvs. lvs \<noteq> [code, method, host] \<longrightarrow>
         cvSeries (counterVecs s' (resultAdapter.m r)) lvs
           = cvSeries (counterVecs s (resultAdapter.m r)) lvs)
   \<and> cvOpts (counterVecs s' (resultAdapter.m r)) = cvOpts (counterVecs s (resultAdapter.m r))
   \<and> cvLabels (counterVecs s' (resultAdapter.m r)) = cvLabels (counterVecs s (resultAdapter.m r))
   \<and> cvCreated (counterVecs s' (resultAdapter.m r))
   \<and> histogramVecs s' = histogramVecs s
   \<and> gauges s' = gauges s
   \<and> histograms s' = histograms s
   \<and> registry s' = registry s
   \<and> hooks s' = hooks s"
  using assms
  by (simp add: resultAdapter_Increment_def withCounterVec_def CounterVec_Inc_def
      CounterVec_WithLabelValues_def)

text \<open>After \<open>init\<close>: the series of the call reads one, another series stays absent.\<close>

theorem resultAdapter_Increment_series_witness:
  "ValidString ''200'' \<and> ValidString ''GET'' \<and> ValidString ''api.example.com''
   \<and> (\<exists>s s'. init (vars [] hidesNothing) = Inr s
        \<and> cvCreated (counterVecs s requestResult)
        \<and> resultAdapter_Increment \<lparr>resultAdapter.m = requestResult\<rparr>
             ''200'' ''GET'' ''api.example.com'' s = Inr s'
        \<and> cvSeries (counterVecs s' requestResult) [''200'', ''GET'', ''api.example.com''] = Some 1
        \<and> cvSeries (counterVecs s' requestResult) [''404'', ''GET'', ''api.example.com''] = None)"
proof -
  from init_vars_empty obtain s where i: "init (vars [] hidesNothing) = Inr s" ..
  have c: "cvCreated (counterVecs s (resultAdapter.m \<lparr>resultAdapter.m = requestResult\<rparr>))"
    by (simp add: init_vars(6) [OF i])
  from resultAdapter_Increment_series
    [OF ValidString_examples(2) ValidString_examples(1) ValidString_examples(4) c]
  obtain s' where
    r: "resultAdapter_Increment \<lparr>resultAdapter.m = requestResult\<rparr>
          ''200'' ''GET'' ''api.example.com'' s = Inr s'" and
    one: "cvSeries (counterVecs s' requestResult) [''200'', ''GET'', ''api.example.com'']
      = Some (CounterVec_WithLabelValues (counterVecs s requestResult)
          [''200'', ''GET'', ''api.example.com''] + 1)" and
    others: "\<forall>lvs. lvs \<noteq> [''200'', ''GET'', ''api.example.com''] \<longrightarrow>
         cvSeries (counterVecs s' requestResult) lvs = cvSeries (counterVecs s requestResult) lvs"
    by auto
  from one have 1: "cvSeries (counterVecs s' requestResult) [''200'', ''GET'', ''api.example.com'']
      = Some 1"
    by (simp add: CounterVec_WithLabelValues_def init_vars(7) [OF i])
  from others have 2: "cvSeries (counterVecs s' requestResult) [''404'', ''GET'', ''api.example.com'']
      = None"
    by (simp add: init_vars(7) [OF i])
  from i r 1 2 init_vars(6) [OF i, of requestResult]
  have "\<exists>s s'. init (vars [] hidesNothing) = Inr s
        \<and> cvCreated (counterVecs s requestResult)
        \<and> resultAdapter_Increment \<lparr>resultAdapter.m = requestResult\<rparr>
             ''200'' ''GET'' ''api.example.com'' s = Inr s'
        \<and> cvSeries (counterVecs s' requestResult) [''200'', ''GET'', ''api.example.com''] = Some 1
        \<and> cvSeries (counterVecs s' requestResult) [''404'', ''GET'', ''api.example.com''] = None"
    by (intro exI conjI)
  then show ?thesis
    by (simp add: ValidString_examples)
qed

text \<open>
  The claim as written, for every label tuple, fails: after \<open>init\<close>, a host that is the
  single byte \<open>0xFF\<close> makes the call panic, and nothing is counted.
\<close>

theorem resultAdapter_Increment_series_counterexample:
  "\<not> isl (init (vars [] hidesNothing))
   \<and> resultAdapter_Increment \<lparr>resultAdapter.m = requestResult\<rparr> ''200'' ''GET'' [CHR 0xFF]
       (projr (init (vars [] hidesNothing)))
     = Inl (InvalidLabelValue [CHR 0xFF])"
proof -
  from init_vars_empty obtain s where i: "init (vars [] hidesNothing) = Inr s" ..
  have "resultAdapter_Increment \<lparr>resultAdapter.m = requestResult\<rparr> ''200'' ''GET'' [CHR 0xFF] s
     = Inl (InvalidLabelValue [CHR 0xFF])"
    by (simp add: resultAdapter_Increment_def withCounterVec_def CounterVec_Inc_def
        init_vars(6) [OF i] ValidString_examples)
  then show ?thesis
    by (simp add: i)
qed

subsection \<open>The latency adapter\<close>

text \<open>The ten upper bounds of the latency histograms, written out.\<close>

lemma ExponentialBuckets_latency:
  "ExponentialBuckets 0.001 2 10
     = map Finite [0.001, 0.002, 0.004, 0.008, 0.016, 0.032, 0.064, 0.128, 0.256, 0.512]"
proof -
  have "[0..<10] = [0, 1, 2, 3, 4, 5, 6, 7, 8, 9 :: nat]"
    by (simp add: upt_rec)
  then show ?thesis
    by (simp add: ExponentialBuckets_def)
qed

text \<open>
  With label values that are valid UTF-8, the adapter that \<open>init\<close> constructs returns,
  and each of the two vectors has the observation if it has been created and is
  untouched if not.
\<close>

lemma latencyAdapter_Observe_valid:
  assumes "ValidString verb" and "ValidString (URL_String u)"
  shows "\<exists>s'. latencyAdapter_Observe
        \<lparr>latencyAdapter.m = requestLatency, dm = deprecatedRequestLatency\<rparr> verb u latency s = Inr s'
    \<and> (\<forall>p. histogramVecs s' p =
          (if hvCreated (histogramVecs s p)
           then (histogramVecs s p)\<lparr>hvSeries := (hvSeries (histogramVecs s p))
                  ([verb, URL_String u] \<mapsto> Histogram_Observe
                     (HistogramVec_WithLabelValues (histogramVecs s p) [verb, URL_String u])
                     (Seconds latency))\<rparr>
           else histogramVecs s p))
    \<and> counterVecs s' = counterVecs s
    \<and> gauges s' = gauges s
    \<and> histograms s' = histograms s
    \<and> registry s' = registry s
    \<and> hooks s' = hooks s"
proof -
  have ob: "HistogramVec_Observe hv [verb, URL_String u] v =
      Inr (if hvCreated hv
           then hv\<lparr>hvSeries := (hvSeries hv)
                  ([verb, URL_String u] \<mapsto> Histogram_Observe
                     (HistogramVec_WithLabelValues hv [verb, URL_String u]) v)\<rparr>
           else hv)" for hv v
    using assms by (simp add: HistogramVec_Observe_def)
  have all: "(\<forall>p. P p) = (P requestLatency \<and> P deprecatedRequestLatency)" for P
    by (metis HistogramVecPtr.exhaust)
  show ?thesis
    by (simp add: latencyAdapter_Observe_def withHistogramVec_def ob all)
qed

lemma HistogramVec_WithLabelValues_updated:
  "HistogramVec_WithLabelValues (hv\<lparr>hvSeries := (hvSeries hv)(lvs \<mapsto> h)\<rparr>) lvs = h"
  by (simp add: HistogramVec_WithLabelValues_def)

text \<open>
  C1, as the code has it: for every verb and URL \<open>u\<close> whose strings are valid UTF-8, every
  duration \<open>d >= 0\<close> and every prior state in which registration has created the primary
  histogram vector (as \<open>init\<close> does), \<open>latencyAdapter.Observe\<close> of the adapter built in
  \<open>init\<close> returns and makes one observation of \<open>d.Seconds()\<close>, a finite non-negative
  number, on the series \<open>(verb, u.String())\<close> of the primary vector (\<open>requestLatency\<close>),
  and of the deprecated one (\<open>deprecatedRequestLatency\<close>) if that has been created: the
  sample count of that series grows by one and \<open>d.Seconds()\<close> is added to its sum. A
  deprecated vector that has not been created, as where the registry hides it, is left
  untouched. The series of other label tuples, the options and label names of the
  vectors, the other instruments, the registry and the hooks stay as they were.
\<close>

theorem latencyAdapter_Observe_records:
  assumes "0 \<le> sint latency"
    and "ValidString verb" and "ValidString (URL_String u)"
    and "hvCreated (histogramVecs s requestLatency)"
  shows "\<exists>s'. latencyAdapter_Observe
        \<lparr>latencyAdapter.m = requestLatency, dm = deprecatedRequestLatency\<rparr> verb u latency s = Inr s'
    \<and> (\<exists>r. 0 \<le> r \<and> Seconds latency = Finite r)
    \<and> (\<forall>p \<in> {requestLatency, deprecatedRequestLatency}. hvCreated (histogramVecs s p) \<longrightarrow>
          hvSeries (histogramVecs s' p) [verb, URL_String u]
            = Some (Histogram_Observe
                (HistogramVec_WithLabelValues (histogramVecs s p) [verb, URL_String u])
                (Seconds latency))
        \<and> sampleCount (HistogramVec_WithLabelValues (histogramVecs s' p) [verb, URL_String u])
            = sampleCount (HistogramVec_WithLabelValues (histogramVecs s p) [verb, URL_String u]) + 1
        \<and> sampleSum (HistogramVec_WithLabelValues (histogramVecs s' p) [verb, URL_String u])
            = fadd (sampleSum (HistogramVec_WithLabelValues (histogramVecs s p) [verb, URL_String u]))
                (Seconds latency)
        \<and> (\<forall>lvs. lvs \<noteq> [verb, URL_String u] \<longrightarrow>
              hvSeries (histogramVecs s' p) lvs = hvSeries (histogramVecs s p) lvs)
        \<and> hvOpts (histogramVecs s' p) = hvOpts (histogramVecs s p)
        \<and> hvLabels (histogramVecs s' p) = hvLabels (histogramVecs s p)
        \<and> hvCreated (histogramVecs s' p))
    \<and> (\<not> hvCreated (histogramVecs s deprecatedRequestLatency) \<longrightarrow>
          histogramVecs s' deprecatedRequestLatency = histogramVecs s deprecatedRequestLatency)
    \<and> counterVecs s' = counterVecs s
    \<and> gauges s' = gauges s
    \<and> histograms s' = histograms s
    \<and> registry s' = registry s
    \<and> hooks s' = hooks s"
proof -
  from assms(1) have "0 \<le> real_of_int (sint latency)"
    by (simp only: of_int_0_le_iff)
  then have "0 \<le> real_of_int (sint latency) / 1000000000"
    by (rule divide_nonneg_pos) simp
  then have nonneg: "\<exists>r. 0 \<le> r \<and> Seconds latency = Finite r"
    using Seconds_eq [of latency] by blast
  from latencyAdapter_Observe_valid [OF assms(2,3), of latency s]
  obtain s' where
    r: "latencyAdapter_Observe
        \<lparr>latencyAdapter.m = requestLatency, dm = deprecatedRequestLatency\<rparr> verb u latency s = Inr s'"
    and v: "\<And>p. histogramVecs s' p =
          (if hvCreated (histogramVecs s p)
           then (histogramVecs s p)\<lparr>hvSeries := (hvSeries (histogramVecs s p))
                  ([verb, URL_String u] \<mapsto> Histogram_Observe
                     (HistogramVec_WithLabelValues (histogramVecs s p) [verb, URL_String u])
                     (Seconds latency))\<rparr>
           else histogramVecs s p)"
    and f: "counterVecs s' = counterVecs s" "gauges s' = gauges s" "histograms s' = histograms s"
      "registry s' = registry s" "hooks s' = hooks s"
    by blast
  show ?thesis
    using nonneg
    by (intro exI [of _ s'] conjI r f)
      (simp_all add: v HistogramVec_WithLabelValues_updated Histogram_Observe_sampleCount
        Histogram_Observe_sampleSum)
qed

text \<open>The first observation on a latency vector as \<open>init\<close> leaves it.\<close>

lemma vars_histogramVecs_Buckets_list:
  "Buckets (hvOpts (histogramVecs (vars reg hide) p))
     = map Finite [0.001, 0.002, 0.004, 0.008, 0.016, 0.032, 0.064, 0.128, 0.256, 0.512]"
  by (simp only: vars_histogramVecs_Buckets ExponentialBuckets_latency)

lemma init_vars_first_observation:
  assumes "init (vars reg hide) = Inr s"
  shows "HistogramVec_WithLabelValues (histogramVecs s p) lvs
     = NewHistogram (hvOpts (histogramVecs (vars reg hide) p))"
  by (simp add: HistogramVec_WithLabelValues_def init_vars(3,4) [OF assms])

text \<open>
  After \<open>init\<close> in a binary that hides nothing, a request of 250 ms counts in the bucket
  up to 0.256 s of both vectors.
\<close>

theorem latencyAdapter_Observe_records_witness:
  "0 \<le> sint (250000000 :: Duration)
   \<and> ValidString ''GET'' \<and> ValidString ''https://api.example.com/api''
   \<and> (\<exists>s s'. init (vars [] hidesNothing) = Inr s
        \<and> hvCreated (histogramVecs s requestLatency)
        \<and> hvCreated (histogramVecs s deprecatedRequestLatency)
        \<and> latencyAdapter_Observe
             \<lparr>latencyAdapter.m = requestLatency, dm = deprecatedRequestLatency\<rparr>
             ''GET'' (URL ''https://api.example.com/api'') 250000000 s = Inr s'
        \<and> map_option (\<lambda>h. (counts h, sampleSum h, sampleCount h))
             (hvSeries (histogramVecs s' requestLatency) [''GET'', ''https://api.example.com/api''])
           = Some ([0, 0, 0, 0, 0, 0, 0, 0, 1, 0], Finite 0.25, 1)
        \<and> map_option (\<lambda>h. (counts h, sampleSum h, sampleCount h))
             (hvSeries (histogramVecs s' deprecatedRequestLatency)
               [''GET'', ''https://api.example.com/api''])
           = Some ([0, 0, 0, 0, 0, 0, 0, 0, 1, 0], Finite 0.25, 1))"
proof -
  from init_vars_empty obtain s where i: "init (vars [] hidesNothing) = Inr s" ..
  have d: "0 \<le> sint (250000000 :: Duration)"
    by simp
  have u: "ValidString (URL_String (URL ''https://api.example.com/api''))"
    by (simp add: ValidString_examples)
  have c1: "hvCreated (histogramVecs s requestLatency)"
    by (rule init_vars(1) [OF i])
  have c2: "hvCreated (histogramVecs s deprecatedRequestLatency)"
    by (simp add: init_vars(2) [OF i] hidesNothing_def)
  have obs: "(\<lambda>h. (counts h, sampleSum h, sampleCount h))
      (Histogram_Observe (NewHistogram (hvOpts (histogramVecs (vars [] hidesNothing) p)))
        (Seconds 250000000))
      = ([0, 0, 0, 0, 0, 0, 0, 0, 1, 0], Finite 0.25, 1)" for p
    by (simp add: Histogram_Observe_def NewHistogram_def vars_histogramVecs_Buckets_list
        Seconds_eq Let_def)
  from latencyAdapter_Observe_records [OF d ValidString_examples(1) u c1]
  obtain s' where
    r: "latencyAdapter_Observe
             \<lparr>latencyAdapter.m = requestLatency, dm = deprecatedRequestLatency\<rparr>
             ''GET'' (URL ''https://api.example.com/api'') 250000000 s = Inr s'" and
    b: "\<forall>p \<in> {requestLatency, deprecatedRequestLatency}. hvCreated (histogramVecs s p) \<longrightarrow>
          hvSeries (histogramVecs s' p) [''GET'', URL_String (URL ''https://api.example.com/api'')]
            = Some (Histogram_Observe
                (HistogramVec_WithLabelValues (histogramVecs s p)
                  [''GET'', URL_String (URL ''https://api.example.com/api'')])
                (Seconds 250000000))"
    by blast
  from b c1 obs have 1: "map_option (\<lambda>h. (counts h, sampleSum h, sampleCount h))
             (hvSeries (histogramVecs s' requestLatency) [''GET'', ''https://api.example.com/api''])
           = Some ([0, 0, 0, 0, 0, 0, 0, 0, 1, 0], Finite 0.25, 1)"
    by (simp add: init_vars_first_observation [OF i])
  from b c2 obs have 2: "map_option (\<lambda>h. (counts h, sampleSum h, sampleCount h))
             (hvSeries (histogramVecs s' deprecatedRequestLatency)
               [''GET'', ''https://api.example.com/api''])
           = Some ([0, 0, 0, 0, 0, 0, 0, 0, 1, 0], Finite 0.25, 1)"
    by (simp add: init_vars_first_observation [OF i])
  from i c1 c2 r 1 2 have "\<exists>s s'. init (vars [] hidesNothing) = Inr s
        \<and> hvCreated (histogramVecs s requestLatency)
        \<and> hvCreated (histogramVecs s deprecatedRequestLatency)
        \<and> latencyAdapter_Observe
             \<lparr>latencyAdapter.m = requestLatency, dm = deprecatedRequestLatency\<rparr>
             ''GET'' (URL ''https://api.example.com/api'') 250000000 s = Inr s'
        \<and> map_option (\<lambda>h. (counts h, sampleSum h, sampleCount h))
             (hvSeries (histogramVecs s' requestLatency) [''GET'', ''https://api.example.com/api''])
           = Some ([0, 0, 0, 0, 0, 0, 0, 0, 1, 0], Finite 0.25, 1)
        \<and> map_option (\<lambda>h. (counts h, sampleSum h, sampleCount h))
             (hvSeries (histogramVecs s' deprecatedRequestLatency)
               [''GET'', ''https://api.example.com/api''])
           = Some ([0, 0, 0, 0, 0, 0, 0, 0, 1, 0], Finite 0.25, 1)"
    by (intro exI conjI)
  with d show ?thesis
    by (simp add: ValidString_examples)
qed

text \<open>
  The claim as written, for every verb and for both histograms, fails twice. After \<open>init\<close>
  in a binary that hides nothing, a verb that is the single byte \<open>0xFF\<close> makes the call
  panic, and nothing is recorded. After \<open>init\<close> in a binary whose registry hides what was
  deprecated in 1.14.0, a call with valid labels returns and leaves the deprecated
  histogram without the series.
\<close>

theorem latencyAdapter_Observe_records_counterexample:
  "0 \<le> sint (250000000 :: Duration)
   \<and> \<not> isl (init (vars [] hidesNothing))
   \<and> latencyAdapter_Observe \<lparr>latencyAdapter.m = requestLatency, dm = deprecatedRequestLatency\<rparr>
       [CHR 0xFF] (URL ''https://api.example.com/api'') 250000000
       (projr (init (vars [] hidesNothing)))
     = Inl (InvalidLabelValue [CHR 0xFF])
   \<and> \<not> isl (init (vars [] hides_1_14))
   \<and> \<not> isl (latencyAdapter_Observe
         \<lparr>latencyAdapter.m = requestLatency, dm = deprecatedRequestLatency\<rparr>
         ''GET'' (URL ''https://api.example.com/api'') 250000000
         (projr (init (vars [] hides_1_14))))
   \<and> hvSeries (histogramVecs (projr (latencyAdapter_Observe
         \<lparr>latencyAdapter.m = requestLatency, dm = deprecatedRequestLatency\<rparr>
         ''GET'' (URL ''https://api.example.com/api'') 250000000
         (projr (init (vars [] hides_1_14))))) deprecatedRequestLatency)
       [''GET'', ''https://api.example.com/api''] = None"
proof -
  from init_vars_empty obtain s where i: "init (vars [] hidesNothing) = Inr s" ..
  from init_vars_empty obtain t where j: "init (vars [] hides_1_14) = Inr t" ..
  have panic: "latencyAdapter_Observe
       \<lparr>latencyAdapter.m = requestLatency, dm = deprecatedRequestLatency\<rparr>
       [CHR 0xFF] (URL ''https://api.example.com/api'') 250000000 s
     = Inl (InvalidLabelValue [CHR 0xFF])"
    by (simp add: latencyAdapter_Observe_def withHistogramVec_def HistogramVec_Observe_def
        init_vars(1) [OF i] ValidString_examples)
  have u: "ValidString (URL_String (URL ''https://api.example.com/api''))"
    by (simp add: ValidString_examples)
  have nc: "\<not> hvCreated (histogramVecs t deprecatedRequestLatency)"
    by (simp add: init_vars(2) [OF j] hides_1_14_def)
  from latencyAdapter_Observe_valid [OF ValidString_examples(1) u, of 250000000 t]
  obtain t' where
    r: "latencyAdapter_Observe
         \<lparr>latencyAdapter.m = requestLatency, dm = deprecatedRequestLatency\<rparr>
         ''GET'' (URL ''https://api.example.com/api'') 250000000 t = Inr t'" and
    v: "histogramVecs t' deprecatedRequestLatency =
          (if hvCreated (histogramVecs t deprecatedRequestLatency)
           then (histogramVecs t deprecatedRequestLatency)
                  \<lparr>hvSeries := (hvSeries (histogramVecs t deprecatedRequestLatency))
                  ([''GET'', URL_String (URL ''https://api.example.com/api'')] \<mapsto> Histogram_Observe
                     (HistogramVec_WithLabelValues (histogramVecs t deprecatedRequestLatency)
                        [''GET'', URL_String (URL ''https://api.example.com/api'')])
                     (Seconds 250000000))\<rparr>
           else histogramVecs t deprecatedRequestLatency)"
    by blast
  have none: "hvSeries (histogramVecs t' deprecatedRequestLatency)
      [''GET'', ''https://api.example.com/api''] = None"
    using nc by (simp add: v init_vars(3) [OF j])
  show ?thesis
    using panic none by (simp add: i j r)
qed

text \<open>
  C10, as the code has it: for every negative duration \<open>d\<close>, every verb and URL whose
  strings are valid UTF-8 and every prior state in which registration has created the
  primary histogram vector, \<open>latencyAdapter.Observe\<close> of the adapter built in \<open>init\<close>
  neither rejects nor clamps nor skips the input. \<open>d.Seconds()\<close> is a negative number,
  and it is that number which is observed on the series \<open>(verb, u.String())\<close> of the
  primary vector, and of the deprecated one if that has been created: the sample count
  grows by one and a finite sum decreases. A deprecated vector that has not been created
  is left untouched.
\<close>

theorem latencyAdapter_Observe_negative:
  assumes "sint latency < 0"
    and "ValidString verb" and "ValidString (URL_String u)"
    and "hvCreated (histogramVecs s requestLatency)"
  shows "\<exists>s'. latencyAdapter_Observe
        \<lparr>latencyAdapter.m = requestLatency, dm = deprecatedRequestLatency\<rparr> verb u latency s = Inr s'
    \<and> (\<exists>r. r < 0 \<and> Seconds latency = Finite r)
    \<and> (\<forall>p \<in> {requestLatency, deprecatedRequestLatency}. hvCreated (histogramVecs s p) \<longrightarrow>
          hvSeries (histogramVecs s' p) [verb, URL_String u]
            = Some (Histogram_Observe
                (HistogramVec_WithLabelValues (histogramVecs s p) [verb, URL_String u])
                (Seconds latency))
        \<and> sampleCount (HistogramVec_WithLabelValues (histogramVecs s' p) [verb, URL_String u])
            = sampleCount (HistogramVec_WithLabelValues (histogramVecs s p) [verb, URL_String u]) + 1
        \<and> (\<forall>x. sampleSum (HistogramVec_WithLabelValues (histogramVecs s p) [verb, URL_String u])
                  = Finite x \<longrightarrow>
              (\<exists>y. y < x \<and>
                 sampleSum (HistogramVec_WithLabelValues (histogramVecs s' p) [verb, URL_String u])
                   = Finite y)))
    \<and> (\<not> hvCreated (histogramVecs s deprecatedRequestLatency) \<longrightarrow>
          histogramVecs s' deprecatedRequestLatency = histogramVecs s deprecatedRequestLatency)"
proof -
  from assms(1) have "real_of_int (sint latency) < 0"
    by (simp only: of_int_less_0_iff)
  then have neg: "real_of_int (sint latency) / 1000000000 < 0"
    by (rule divide_neg_pos) simp
  then have ex: "\<exists>r. r < 0 \<and> Seconds latency = Finite r"
    using Seconds_eq [of latency] by blast
  have sum: "\<exists>y. y < x \<and> fadd (Finite x) (Seconds latency) = Finite y" for x
    using neg by (simp add: Seconds_eq)
  from latencyAdapter_Observe_valid [OF assms(2,3), of latency s]
  obtain s' where
    r: "latencyAdapter_Observe
        \<lparr>latencyAdapter.m = requestLatency, dm = deprecatedRequestLatency\<rparr> verb u latency s = Inr s'"
    and v: "\<And>p. histogramVecs s' p =
          (if hvCreated (histogramVecs s p)
           then (histogramVecs s p)\<lparr>hvSeries := (hvSeries (histogramVecs s p))
                  ([verb, URL_String u] \<mapsto> Histogram_Observe
                     (HistogramVec_WithLabelValues (histogramVecs s p) [verb, URL_String u])
                     (Seconds latency))\<rparr>
           else histogramVecs s p)"
    by blast
  show ?thesis
    using ex sum
    by (intro exI [of _ s'] conjI r)
      (simp_all add: v HistogramVec_WithLabelValues_updated Histogram_Observe_sampleCount
        Histogram_Observe_sampleSum)
qed

text \<open>
  After \<open>init\<close> in a binary that hides nothing, a latency of minus 1.5 s counts in the
  first bucket of both vectors.
\<close>

theorem latencyAdapter_Observe_negative_witness:
  "sint (-1500000000 :: Duration) < 0
   \<and> ValidString ''GET'' \<and> ValidString ''https://api.example.com/api''
   \<and> (\<exists>s s'. init (vars [] hidesNothing) = Inr s
        \<and> hvCreated (histogramVecs s requestLatency)
        \<and> hvCreated (histogramVecs s deprecatedRequestLatency)
        \<and> latencyAdapter_Observe
             \<lparr>latencyAdapter.m = requestLatency, dm = deprecatedRequestLatency\<rparr>
             ''GET'' (URL ''https://api.example.com/api'') (-1500000000) s = Inr s'
        \<and> map_option (\<lambda>h. (counts h, sampleSum h, sampleCount h))
             (hvSeries (histogramVecs s' requestLatency) [''GET'', ''https://api.example.com/api''])
           = Some ([1, 0, 0, 0, 0, 0, 0, 0, 0, 0], Finite (-1.5), 1)
        \<and> map_option (\<lambda>h. (counts h, sampleSum h, sampleCount h))
             (hvSeries (histogramVecs s' deprecatedRequestLatency)
               [''GET'', ''https://api.example.com/api''])
           = Some ([1, 0, 0, 0, 0, 0, 0, 0, 0, 0], Finite (-1.5), 1))"
proof -
  from init_vars_empty obtain s where i: "init (vars [] hidesNothing) = Inr s" ..
  have d: "sint (-1500000000 :: Duration) < 0"
    by simp
  have u: "ValidString (URL_String (URL ''https://api.example.com/api''))"
    by (simp add: ValidString_examples)
  have c1: "hvCreated (histogramVecs s requestLatency)"
    by (rule init_vars(1) [OF i])
  have c2: "hvCreated (histogramVecs s deprecatedRequestLatency)"
    by (simp add: init_vars(2) [OF i] hidesNothing_def)
  have obs: "(\<lambda>h. (counts h, sampleSum h, sampleCount h))
      (Histogram_Observe (NewHistogram (hvOpts (histogramVecs (vars [] hidesNothing) p)))
        (Seconds (-1500000000)))
      = ([1, 0, 0, 0, 0, 0, 0, 0, 0, 0], Finite (-1.5), 1)" for p
    by (simp add: Histogram_Observe_def NewHistogram_def vars_histogramVecs_Buckets_list
        Seconds_eq Let_def)
  from latencyAdapter_Observe_negative [OF d ValidString_examples(1) u c1]
  obtain s' where
    r: "latencyAdapter_Observe
             \<lparr>latencyAdapter.m = requestLatency, dm = deprecatedRequestLatency\<rparr>
             ''GET'' (URL ''https://api.example.com/api'') (-1500000000) s = Inr s'" and
    b: "\<forall>p \<in> {requestLatency, deprecatedRequestLatency}. hvCreated (histogramVecs s p) \<longrightarrow>
          hvSeries (histogramVecs s' p) [''GET'', URL_String (URL ''https://api.example.com/api'')]
            = Some (Histogram_Observe
                (HistogramVec_WithLabelValues (histogramVecs s p)
                  [''GET'', URL_String (URL ''https://api.example.com/api'')])
                (Seconds (-1500000000)))"
    by blast
  from b c1 obs have 1: "map_option (\<lambda>h. (counts h, sampleSum h, sampleCount h))
             (hvSeries (histogramVecs s' requestLatency) [''GET'', ''https://api.example.com/api''])
           = Some ([1, 0, 0, 0, 0, 0, 0, 0, 0, 0], Finite (-1.5), 1)"
    by (simp add: init_vars_first_observation [OF i])
  from b c2 obs have 2: "map_option (\<lambda>h. (counts h, sampleSum h, sampleCount h))
             (hvSeries (histogramVecs s' deprecatedRequestLatency)
               [''GET'', ''https://api.example.com/api''])
           = Some ([1, 0, 0, 0, 0, 0, 0, 0, 0, 0], Finite (-1.5), 1)"
    by (simp add: init_vars_first_observation [OF i])
  from i c1 c2 r 1 2 have "\<exists>s s'. init (vars [] hidesNothing) = Inr s
        \<and> hvCreated (histogramVecs s requestLatency)
        \<and> hvCreated (histogramVecs s deprecatedRequestLatency)
        \<and> latencyAdapter_Observe
             \<lparr>latencyAdapter.m = requestLatency, dm = deprecatedRequestLatency\<rparr>
             ''GET'' (URL ''https://api.example.com/api'') (-1500000000) s = Inr s'
        \<and> map_option (\<lambda>h. (counts h, sampleSum h, sampleCount h))
             (hvSeries (histogramVecs s' requestLatency) [''GET'', ''https://api.example.com/api''])
           = Some ([1, 0, 0, 0, 0, 0, 0, 0, 0, 0], Finite (-1.5), 1)
        \<and> map_option (\<lambda>h. (counts h, sampleSum h, sampleCount h))
             (hvSeries (histogramVecs s' deprecatedRequestLatency)
               [''GET'', ''https://api.example.com/api''])
           = Some ([1, 0, 0, 0, 0, 0, 0, 0, 0, 0], Finite (-1.5), 1)"
    by (intro exI conjI)
  with d show ?thesis
    by (simp add: ValidString_examples)
qed

text \<open>
  The claim as written, for every negative duration whatever the verb and for both
  histograms, fails twice. After \<open>init\<close> in a binary that hides nothing, a latency of
  minus 2 s with a URL string that is the single byte \<open>0xFF\<close> is rejected: the call panics
  and nothing is recorded. After \<open>init\<close> in a binary whose registry hides what was
  deprecated in 1.14.0, a latency of minus 2 s with valid labels is skipped for the
  deprecated histogram: the call returns and that histogram has no series.
\<close>

theorem latencyAdapter_Observe_negative_counterexample:
  "sint (-2000000000 :: Duration) < 0
   \<and> \<not> isl (init (vars [] hidesNothing))
   \<and> latencyAdapter_Observe \<lparr>latencyAdapter.m = requestLatency, dm = deprecatedRequestLatency\<rparr>
       ''GET'' (URL [CHR 0xFF]) (-2000000000) (projr (init (vars [] hidesNothing)))
     = Inl (InvalidLabelValue [CHR 0xFF])
   \<and> \<not> isl (init (vars [] hides_1_14))
   \<and> \<not> isl (latencyAdapter_Observe
         \<lparr>latencyAdapter.m = requestLatency, dm = deprecatedRequestLatency\<rparr>
         ''GET'' (URL ''https://api.example.com/api'') (-2000000000)
         (projr (init (vars [] hides_1_14))))
   \<and> hvSeries (histogramVecs (projr (latencyAdapter_Observe
         \<lparr>latencyAdapter.m = requestLatency, dm = deprecatedRequestLatency\<rparr>
         ''GET'' (URL ''https://api.example.com/api'') (-2000000000)
         (projr (init (vars [] hides_1_14))))) deprecatedRequestLatency)
       [''GET'', ''https://api.example.com/api''] = None"
proof -
  from init_vars_empty obtain s where i: "init (vars [] hidesNothing) = Inr s" ..
  from init_vars_empty obtain t where j: "init (vars [] hides_1_14) = Inr t" ..
  have panic: "latencyAdapter_Observe
       \<lparr>latencyAdapter.m = requestLatency, dm = deprecatedRequestLatency\<rparr>
       ''GET'' (URL [CHR 0xFF]) (-2000000000) s
     = Inl (InvalidLabelValue [CHR 0xFF])"
    by (simp add: latencyAdapter_Observe_def withHistogramVec_def HistogramVec_Observe_def
        init_vars(1) [OF i] ValidString_examples)
  have u: "ValidString (URL_String (URL ''https://api.example.com/api''))"
    by (simp add: ValidString_examples)
  have nc: "\<not> hvCreated (histogramVecs t deprecatedRequestLatency)"
    by (simp add: init_vars(2) [OF j] hides_1_14_def)
  from latencyAdapter_Observe_valid [OF ValidString_examples(1) u, of "-2000000000" t]
  obtain t' where
    r: "latencyAdapter_Observe
         \<lparr>latencyAdapter.m = requestLatency, dm = deprecatedRequestLatency\<rparr>
         ''GET'' (URL ''https://api.example.com/api'') (-2000000000) t = Inr t'" and
    v: "histogramVecs t' deprecatedRequestLatency =
          (if hvCreated (histogramVecs t deprecatedRequestLatency)
           then (histogramVecs t deprecatedRequestLatency)
                  \<lparr>hvSeries := (hvSeries (histogramVecs t deprecatedRequestLatency))
                  ([''GET'', URL_String (URL ''https://api.example.com/api'')] \<mapsto> Histogram_Observe
                     (HistogramVec_WithLabelValues (histogramVecs t deprecatedRequestLatency)
                        [''GET'', URL_String (URL ''https://api.example.com/api'')])
                     (Seconds (-2000000000)))\<rparr>
           else histogramVecs t deprecatedRequestLatency)"
    by blast
  have none: "hvSeries (histogramVecs t' deprecatedRequestLatency)
      [''GET'', ''https://api.example.com/api''] = None"
    using nc by (simp add: v init_vars(3) [OF j])
  show ?thesis
    using panic none by (simp add: i j r)
qed

subsection \<open>Bucket boundaries\<close>

lemma vars_rotation_Buckets:
  "Buckets (hOpts (histograms (vars reg hide) execPluginCertRotation))
     = map Finite [600, 1800, 3600, 14400, 86400, 604800, 2592000, 7776000,
                   15552000, 31104000, 124416000]"
  by (simp add: vars_def NewHistogram_def)

text \<open>
  C8: the bucket boundaries are fixed when the instruments are constructed. Both latency
  vectors have the ten upper bounds \<open>0.001 * 2^i\<close> for \<open>i = 0..9\<close>, that is 0.001 up to
  0.512 seconds; the rotation-age histogram has the eleven upper bounds 600, 1800, 3600,
  14400, 86400, 604800, 2592000, 7776000, 15552000, 31104000 and 124416000 seconds, from
  10 minutes to 4 years (of 360 days). After \<open>init\<close> and any sequence of calls of the client
  library that returns, the vectors, every series in them and the rotation-age histogram
  still have these boundaries.
\<close>

theorem bucket_boundaries:
  "ExponentialBuckets 0.001 2 10 = map (\<lambda>i. Finite (0.001 * 2 ^ i)) [0..<10]
   \<and> ExponentialBuckets 0.001 2 10
       = map Finite [0.001, 0.002, 0.004, 0.008, 0.016, 0.032, 0.064, 0.128, 0.256, 0.512]
   \<and> (\<forall>p. Buckets (hvOpts (histogramVecs (vars reg hide) p)) = ExponentialBuckets 0.001 2 10)
   \<and> Buckets (hOpts (histograms (vars reg hide) execPluginCertRotation))
       = map Finite [600, 1800, 3600, 14400, 86400, 604800, 2592000, 7776000,
                     15552000, 31104000, 124416000]
   \<and> hd (Buckets (hOpts (histograms (vars reg hide) execPluginCertRotation))) = Finite (10 * 60)
   \<and> last (Buckets (hOpts (histograms (vars reg hide) execPluginCertRotation)))
       = Finite (4 * (360 * 24 * 60 * 60))
   \<and> (\<forall>s cs s'. init (vars reg hide) = Inr s \<and> run cs s = Inr s' \<longrightarrow>
         (\<forall>p. Buckets (hvOpts (histogramVecs s' p)) = ExponentialBuckets 0.001 2 10
            \<and> (\<forall>lvs h. hvSeries (histogramVecs s' p) lvs = Some h \<longrightarrow>
                  Buckets (hOpts h) = ExponentialBuckets 0.001 2 10))
         \<and> Buckets (hOpts (histograms s' execPluginCertRotation))
             = map Finite [600, 1800, 3600, 14400, 86400, 604800, 2592000, 7776000,
                           15552000, 31104000, 124416000])"
proof (intro conjI allI impI)
  show "ExponentialBuckets 0.001 2 10 = map (\<lambda>i. Finite (0.001 * 2 ^ i)) [0..<10]"
    by (simp only: ExponentialBuckets_def)
  show "ExponentialBuckets 0.001 2 10
       = map Finite [0.001, 0.002, 0.004, 0.008, 0.016, 0.032, 0.064, 0.128, 0.256, 0.512]"
    by (rule ExponentialBuckets_latency)
  show "Buckets (hvOpts (histogramVecs (vars reg hide) p)) = ExponentialBuckets 0.001 2 10" for p
    by (rule vars_histogramVecs_Buckets)
  show "Buckets (hOpts (histograms (vars reg hide) execPluginCertRotation))
       = map Finite [600, 1800, 3600, 14400, 86400, 604800, 2592000, 7776000,
                     15552000, 31104000, 124416000]"
    by (rule vars_rotation_Buckets)
  show "hd (Buckets (hOpts (histograms (vars reg hide) execPluginCertRotation))) = Finite (10 * 60)"
    by (simp add: vars_rotation_Buckets)
  show "last (Buckets (hOpts (histograms (vars reg hide) execPluginCertRotation)))
       = Finite (4 * (360 * 24 * 60 * 60))"
    by (simp add: vars_rotation_Buckets)
next
  fix s cs s' p
  assume a: "init (vars reg hide) = Inr s \<and> run cs s = Inr s'"
  then have i: "init (vars reg hide) = Inr s" and r: "run cs s = Inr s'"
    by simp_all
  show b: "Buckets (hvOpts (histogramVecs s' p)) = ExponentialBuckets 0.001 2 10"
    by (simp only: run_InrD(2) [OF r] init_vars(4) [OF i] vars_histogramVecs_Buckets)
  fix lvs h
  assume h: "hvSeries (histogramVecs s' p) lvs = Some h"
  have "seriesFollowOpts (histogramVecs s' p)"
    using r by (rule run_InrD(3)) (rule init_vars(5) [OF i])
  with h have "hOpts h = hvOpts (histogramVecs s' p)"
    by (simp add: seriesFollowOpts_def)
  with b show "Buckets (hOpts h) = ExponentialBuckets 0.001 2 10"
    by (simp only:)
next
  fix s cs s'
  assume a: "init (vars reg hide) = Inr s \<and> run cs s = Inr s'"
  then have i: "init (vars reg hide) = Inr s" and r: "run cs s = Inr s'"
    by simp_all
  show "Buckets (hOpts (histograms s' execPluginCertRotation))
             = map Finite [600, 1800, 3600, 14400, 86400, 604800, 2592000, 7776000,
                           15552000, 31104000, 124416000]"
    by (simp only: run_InrD(6) [OF r] init_Inr(4) [OF i] vars_rotation_Buckets)
qed

text \<open>A series created by the first observation after \<open>init\<close> has the ten boundaries.\<close>

theorem bucket_boundaries_witness:
  "\<exists>s s'. init (vars [] hidesNothing) = Inr s
     \<and> run [ObserveLatency ''GET'' (URL ''https://api.example.com/api'') 250000000] s = Inr s'
     \<and> (\<exists>h. hvSeries (histogramVecs s' requestLatency)
              [''GET'', ''https://api.example.com/api''] = Some h
            \<and> Buckets (hOpts h)
                = map Finite [0.001, 0.002, 0.004, 0.008, 0.016, 0.032, 0.064, 0.128, 0.256, 0.512])"
proof -
  from init_vars_empty obtain s where i: "init (vars [] hidesNothing) = Inr s" ..
  let ?cs = "[ObserveLatency ''GET'' (URL ''https://api.example.com/api'') 250000000]"
  have u: "ValidString (URL_String (URL ''https://api.example.com/api''))"
    by (simp add: ValidString_examples)
  from latencyAdapter_Observe_valid [OF ValidString_examples(1) u, of 250000000 s]
  obtain s' where
    o: "latencyAdapter_Observe
         \<lparr>latencyAdapter.m = requestLatency, dm = deprecatedRequestLatency\<rparr>
         ''GET'' (URL ''https://api.example.com/api'') 250000000 s = Inr s'" and
    v: "histogramVecs s' requestLatency =
          (if hvCreated (histogramVecs s requestLatency)
           then (histogramVecs s requestLatency)
                  \<lparr>hvSeries := (hvSeries (histogramVecs s requestLatency))
                  ([''GET'', URL_String (URL ''https://api.example.com/api'')] \<mapsto> Histogram_Observe
                     (HistogramVec_WithLabelValues (histogramVecs s requestLatency)
                        [''GET'', URL_String (URL ''https://api.example.com/api'')])
                     (Seconds 250000000))\<rparr>
           else histogramVecs s requestLatency)"
    by blast
  have r: "run ?cs s = Inr s'"
    by (simp add: dispatch_def init_Inr(6) [OF i] o)
  have "hvSeries (histogramVecs s' requestLatency) [''GET'', ''https://api.example.com/api'']
      \<noteq> None"
    by (simp add: v init_vars(1) [OF i])
  then obtain h where h: "hvSeries (histogramVecs s' requestLatency)
      [''GET'', ''https://api.example.com/api''] = Some h"
    by blast
  note t = bucket_boundaries [of "[]" hidesNothing]
  note list = t [THEN conjunct2, THEN conjunct1]
  note fixed = t [THEN conjunct2, THEN conjunct2, THEN conjunct2, THEN conjunct2, THEN conjunct2,
      THEN conjunct2, THEN spec, THEN spec, THEN spec, THEN mp, OF conjI, OF i r,
      THEN conjunct1, THEN spec, THEN conjunct2, THEN spec, THEN spec, THEN mp]
  from fixed [OF h] have "Buckets (hOpts h)
      = map Finite [0.001, 0.002, 0.004, 0.008, 0.016, 0.032, 0.064, 0.128, 0.256, 0.512]"
    by (simp only: list)
  with h have e: "\<exists>h. hvSeries (histogramVecs s' requestLatency)
              [''GET'', ''https://api.example.com/api''] = Some h
            \<and> Buckets (hOpts h)
                = map Finite [0.001, 0.002, 0.004, 0.008, 0.016, 0.032, 0.064, 0.128, 0.256, 0.512]"
    by (intro exI conjI)
  show ?thesis
    by (rule exI [of _ s], rule exI [of _ s']) (intro conjI i r e)
qed

end
